theory Spec2Isabelle
  imports Main "HOL-Library.Word"
begin

unbundle bit_operations_syntax

section \<open>Go values of the bookstore service\<close>

text \<open>
  The service is one Go file, \<^verbatim>\<open>main.go\<close>. Its functions are embedded as HOL
  functions of the same names. What the program does through a library or a server
  outside the repository (encoding/json, net/http, database/sql with the PostgreSQL
  table, Viper, Vault) is either a parameter of the embedded function (a record of the
  operations called, so that a theorem holds for every behaviour of the collaborator) or
  a small model of the documented behaviour of that library, introduced where it is
  used and named as such.
\<close>

text \<open>A Go \<^verbatim>\<open>error\<close> value, given by its message.\<close>

datatype error = Error string

fun Error_msg :: "error \<Rightarrow> string" where
  "Error_msg (Error m) = m"

text \<open>
  A \<^verbatim>\<open>float32\<close> is its IEEE-754 bit pattern. The program does no arithmetic on
  prices; it only stores, passes and encodes them. A pattern whose exponent bits are
  all ones is an infinity or a NaN.
\<close>

type_synonym float32 = "32 word"

definition float32_finite :: "float32 \<Rightarrow> bool" where
  "float32_finite f = (drop_bit 23 f AND 255 \<noteq> 255)"

text \<open>\<^verbatim>\<open>type Book struct\<close> (main.go 179-184).\<close>

record Book =
  Isbn :: string
  Title :: string
  Author :: string
  Price :: float32

text \<open>The zero value of \<^verbatim>\<open>var bk Book\<close>.\<close>

definition zero_Book :: Book where
  "zero_Book = \<lparr>Isbn = [], Title = [], Author = [], Price = 0\<rparr>"

text \<open>
  A Go slice is either nil or a (possibly empty) sequence. \<^verbatim>\<open>var bks []Book\<close>
  is the nil slice, and \<^verbatim>\<open>append\<close> to a nil slice gives a non-nil one.
\<close>

datatype 'a slice = NilSlice | Slice "'a list"

fun elems :: "'a slice \<Rightarrow> 'a list" where
  "elems NilSlice = []"
| "elems (Slice xs) = xs"

fun append_slice :: "'a slice \<Rightarrow> 'a \<Rightarrow> 'a slice" where
  "append_slice NilSlice x = Slice [x]"
| "append_slice (Slice xs) x = Slice (xs @ [x])"

section \<open>encoding/json, as far as the handlers use it\<close>

text \<open>
  A JSON document as a tree. A number is given by the \<^verbatim>\<open>float32\<close> that
  \<^verbatim>\<open>strconv.ParseFloat(literal, 32)\<close> makes of its literal: a literal outside
  the range of float32 is an infinity there, and ParseFloat reports a range error
  with it. The bytes of a document (escaping, number formatting) are not modelled.
\<close>

datatype json =
    JNull
  | JBool bool
  | JNumber float32
  | JString string
  | JArray "json list"
  | JObject "(string \<times> json) list"

text \<open>
  \<^verbatim>\<open>json.Marshal\<close> of a Book: the four fields under the names of their struct tags,
  in declaration order. A price that is an infinity or a NaN is an
  \<^verbatim>\<open>UnsupportedValueError\<close>.
\<close>

definition Book_object :: "Book \<Rightarrow> json" where
  "Book_object bk =
     JObject [(''ISBN'', JString (Isbn bk)), (''Title'', JString (Title bk)),
              (''Author'', JString (Author bk)), (''Price'', JNumber (Price bk))]"

definition Marshal_Book :: "Book \<Rightarrow> error + json" where
  "Marshal_Book bk =
     (if float32_finite (Price bk) then Inr (Book_object bk)
      else Inl (Error ''json: unsupported value''))"

fun Marshal_list :: "Book list \<Rightarrow> error + json list" where
  "Marshal_list [] = Inr []"
| "Marshal_list (bk # bks) =
     (case Marshal_Book bk of
        Inl err \<Rightarrow> Inl err
      | Inr j \<Rightarrow> (case Marshal_list bks of Inl err \<Rightarrow> Inl err | Inr js \<Rightarrow> Inr (j # js)))"

text \<open>
  \<^verbatim>\<open>json.Marshal\<close> of a \<^verbatim>\<open>[]Book\<close>: a nil slice encodes as the JSON value
  \<^verbatim>\<open>null\<close>, any other slice as an array.
\<close>

fun Marshal_Books :: "Book slice \<Rightarrow> error + json" where
  "Marshal_Books NilSlice = Inr JNull"
| "Marshal_Books (Slice bks) =
     (case Marshal_list bks of Inl err \<Rightarrow> Inl err | Inr js \<Rightarrow> Inr (JArray js))"

text \<open>
  The name of an object member selects a struct field by exact match with the field's
  tag, and otherwise by a match under Unicode simple case folding. Besides the ASCII
  letters only U+017F (bytes C5 BF) and U+212A (bytes E2 84 AA) fold to ASCII letters,
  to S and K.
\<close>

definition upper_byte :: "char \<Rightarrow> char" where
  "upper_byte c =
     (let n = (of_char c :: nat) in if 97 \<le> n \<and> n \<le> 122 then char_of (n - 32) else c)"

fun foldName :: "string \<Rightarrow> string" where
  "foldName (c1 # c2 # c3 # cs) =
     (if c1 = CHR 0xE2 \<and> c2 = CHR 0x84 \<and> c3 = CHR 0xAA then CHR ''K'' # foldName cs
      else if c1 = CHR 0xC5 \<and> c2 = CHR 0xBF then CHR ''S'' # foldName (c3 # cs)
      else upper_byte c1 # foldName (c2 # c3 # cs))"
| "foldName [c1, c2] =
     (if c1 = CHR 0xC5 \<and> c2 = CHR 0xBF then [CHR ''S''] else [upper_byte c1, upper_byte c2])"
| "foldName [c1] = [upper_byte c1]"
| "foldName [] = []"

datatype field = F_Isbn | F_Title | F_Author | F_Price

definition field_named :: "string \<Rightarrow> field option" where
  "field_named key =
     (if key = ''ISBN'' then Some F_Isbn
      else if key = ''Title'' then Some F_Title
      else if key = ''Author'' then Some F_Author
      else if key = ''Price'' then Some F_Price
      else if foldName key = ''ISBN'' then Some F_Isbn
      else if foldName key = ''TITLE'' then Some F_Title
      else if foldName key = ''AUTHOR'' then Some F_Author
      else if foldName key = ''PRICE'' then Some F_Price
      else None)"

text \<open>
  Storing one member's value into its field. \<^verbatim>\<open>null\<close> leaves the field as it is;
  a value of another JSON type, or a number out of range, is an
  \<^verbatim>\<open>UnmarshalTypeError\<close> and leaves the field as it is.
\<close>

fun store_field :: "field \<Rightarrow> json \<Rightarrow> Book \<Rightarrow> error + Book" where
  "store_field f JNull bk = Inr bk"
| "store_field F_Isbn (JString s) bk = Inr (bk\<lparr>Isbn := s\<rparr>)"
| "store_field F_Title (JString s) bk = Inr (bk\<lparr>Title := s\<rparr>)"
| "store_field F_Author (JString s) bk = Inr (bk\<lparr>Author := s\<rparr>)"
| "store_field F_Price (JNumber n) bk =
     (if float32_finite n then Inr (bk\<lparr>Price := n\<rparr>)
      else Inl (Error ''json: cannot unmarshal number into Go struct field of type float32''))"
| "store_field f v bk = Inl (Error ''json: cannot unmarshal value into Go struct field'')"

text \<open>
  The members of an object are stored in order; a member that names no field is
  skipped; after a type error decoding goes on and the first such error is kept.
\<close>

fun store_members :: "(string \<times> json) list \<Rightarrow> Book \<Rightarrow> error option \<Rightarrow> Book \<times> error option" where
  "store_members [] bk saved = (bk, saved)"
| "store_members ((key, v) # ms) bk saved =
     (case field_named key of
        None \<Rightarrow> store_members ms bk saved
      | Some f \<Rightarrow>
          (case store_field f v bk of
             Inr bk' \<Rightarrow> store_members ms bk' saved
           | Inl err \<Rightarrow>
               store_members ms bk (case saved of None \<Rightarrow> Some err | Some e \<Rightarrow> Some e)))"

text \<open>\<^verbatim>\<open>json.Unmarshal\<close> of a document into \<^verbatim>\<open>*Book\<close>.\<close>

fun Unmarshal_Book :: "json \<Rightarrow> Book \<Rightarrow> error + Book" where
  "Unmarshal_Book JNull bk = Inr bk"
| "Unmarshal_Book (JObject ms) bk =
     (case store_members ms bk None of
        (bk', None) \<Rightarrow> Inr bk'
      | (bk', Some err) \<Rightarrow> Inl err)"
| "Unmarshal_Book v bk = Inl (Error ''json: cannot unmarshal value into Go value of type main.Book'')"

text \<open>
  A request body is given by what the decoder's scanner finds at its start: no JSON
  value (a syntax error, or the end of input), or the first JSON value of the body.
\<close>

datatype body = Malformed error | Doc json

text \<open>\<^verbatim>\<open>json.NewDecoder(r.Body).Decode(&bk)\<close> with \<^verbatim>\<open>var bk Book\<close>.\<close>

fun Decode :: "body \<Rightarrow> error + Book" where
  "Decode (Malformed err) = Inl err"
| "Decode (Doc j) = Unmarshal_Book j zero_Book"

text \<open>
  The documents that fit the Book type, for stating when decoding succeeds: \<^verbatim>\<open>null\<close>,
  or an object in which every member that names a field holds \<^verbatim>\<open>null\<close> or a value
  of the field's type (a string; for the price a number in the range of float32).
\<close>

fun value_fits :: "field \<Rightarrow> json \<Rightarrow> bool" where
  "value_fits f JNull = True"
| "value_fits F_Isbn (JString s) = True"
| "value_fits F_Title (JString s) = True"
| "value_fits F_Author (JString s) = True"
| "value_fits F_Price (JNumber n) = float32_finite n"
| "value_fits f v = False"

definition member_fits :: "string \<times> json \<Rightarrow> bool" where
  "member_fits m = (case field_named (fst m) of None \<Rightarrow> True | Some f \<Rightarrow> value_fits f (snd m))"

fun fits_Book :: "json \<Rightarrow> bool" where
  "fits_Book JNull = True"
| "fits_Book (JObject ms) = list_all member_fits ms"
| "fits_Book v = False"

text \<open>The fields that the members of an object name.\<close>

definition named_fields :: "(string \<times> json) list \<Rightarrow> field set" where
  "named_fields ms = {f. Some f \<in> set (map (\<lambda>m. field_named (fst m)) ms)}"

section \<open>net/http: the response writer\<close>

text \<open>
  What has been written to an \<^verbatim>\<open>http.ResponseWriter\<close>: the header map the handler
  edits, the status once \<^verbatim>\<open>WriteHeader\<close> has taken effect together with the
  headers sent at that moment, and the body written so far. A body is a sequence of
  writes: a text, or the line that the JSON encoder writes for a document.
\<close>

datatype chunk = Text string | JsonLine json

record ResponseWriter =
  header :: "string \<rightharpoonup> string"
  status :: "nat option"
  sent :: "string \<rightharpoonup> string"
  written :: "chunk list"

definition fresh :: ResponseWriter where
  "fresh = \<lparr>header = Map.empty, status = None, sent = Map.empty, written = []\<rparr>"

definition Header_Set :: "string \<Rightarrow> string \<Rightarrow> ResponseWriter \<Rightarrow> ResponseWriter" where
  "Header_Set k v w = w\<lparr>header := (header w)(k \<mapsto> v)\<rparr>"

text \<open>A second \<^verbatim>\<open>WriteHeader\<close> is superfluous and changes nothing.\<close>

definition WriteHeader :: "nat \<Rightarrow> ResponseWriter \<Rightarrow> ResponseWriter" where
  "WriteHeader code w =
     (case status w of
        Some c \<Rightarrow> w
      | None \<Rightarrow> w\<lparr>status := Some code, sent := header w\<rparr>)"

text \<open>The first \<^verbatim>\<open>Write\<close> sends status 200 when no status was sent before.\<close>

definition Write :: "chunk \<Rightarrow> ResponseWriter \<Rightarrow> ResponseWriter" where
  "Write c w = (let w' = WriteHeader 200 w in w'\<lparr>written := written w' @ [c]\<rparr>)"

text \<open>The status the client receives: 200 when the handler set none.\<close>

definition status_code :: "ResponseWriter \<Rightarrow> nat" where
  "status_code w = (case status w of None \<Rightarrow> 200 | Some c \<Rightarrow> c)"

text \<open>\<^verbatim>\<open>fmt.Fprintln(w, text)\<close>.\<close>

definition Fprintln :: "string \<Rightarrow> ResponseWriter \<Rightarrow> ResponseWriter" where
  "Fprintln text w = Write (Text (text @ [CHR 0x0A])) w"

text \<open>\<^verbatim>\<open>http.StatusText\<close>, for the codes the program asks for.\<close>

definition StatusText :: "nat \<Rightarrow> string" where
  "StatusText code =
     (if code = 200 then ''OK''
      else if code = 400 then ''Bad Request''
      else if code = 500 then ''Internal Server Error''
      else [])"

text \<open>\<^verbatim>\<open>func Respond\<close> (main.go 279-284).\<close>

definition Respond :: "string \<Rightarrow> nat \<Rightarrow> ResponseWriter \<Rightarrow> ResponseWriter" where
  "Respond text code w =
     Fprintln text
       (WriteHeader code
          (Header_Set ''X-Content-Type-Options'' ''nosniff''
             (Header_Set ''Content-Type'' ''text/plain; charset=utf-8'' w)))"

text \<open>
  \<^verbatim>\<open>http.Error\<close>: the two headers, the status, the message and a newline, the
  statements that \<^verbatim>\<open>Respond\<close> repeats.
\<close>

definition http_Error :: "string \<Rightarrow> nat \<Rightarrow> ResponseWriter \<Rightarrow> ResponseWriter" where
  "http_Error text code w =
     Fprintln text
       (WriteHeader code
          (Header_Set ''X-Content-Type-Options'' ''nosniff''
             (Header_Set ''Content-Type'' ''text/plain; charset=utf-8'' w)))"

text \<open>
  \<^verbatim>\<open>json.NewEncoder(w).Encode(v)\<close>, given the result of marshalling \<open>v\<close>: one
  write of the document and a newline, or the marshalling error and no write.
\<close>

definition Encode :: "error + json \<Rightarrow> ResponseWriter \<Rightarrow> error option \<times> ResponseWriter" where
  "Encode m w = (case m of Inl err \<Rightarrow> (Some err, w) | Inr j \<Rightarrow> (None, Write (JsonLine j) w))"

section \<open>The handlers\<close>

text \<open>
  \<^verbatim>\<open>type Env struct\<close> (main.go 103-112): two interface-typed fields. A method is a
  function on the state \<open>'s\<close> behind the interface (the database, for the real
  implementations). \<^verbatim>\<open>Create\<close> receives a pointer to the book and may write
  through it, so it returns the book as it leaves it.
\<close>

record 's AppI =
  CheckDBConn :: "'s \<Rightarrow> error option \<times> 's"

record 's BooksI =
  All_books :: "'s \<Rightarrow> (error + Book slice) \<times> 's"
  Get :: "string \<Rightarrow> 's \<Rightarrow> (error + Book) \<times> 's"
  Create :: "Book \<Rightarrow> 's \<Rightarrow> (error option \<times> Book) \<times> 's"

record 's Env =
  app :: "'s AppI"
  books :: "'s BooksI"

text \<open>
  What a handler leaves behind: the response, the state behind the interfaces, and the
  lines given to \<^verbatim>\<open>log.Print\<close>.
\<close>

record 's served =
  resp :: ResponseWriter
  world :: 's
  logged :: "string list"

text \<open>\<^verbatim>\<open>func (env *Env) appHealth\<close> (main.go 114-122). The error branch does not return.\<close>

definition appHealth :: "'s Env \<Rightarrow> ResponseWriter \<Rightarrow> 's \<Rightarrow> 's served" where
  "appHealth env w s =
     (let (err, s1) = CheckDBConn (app env) s;
          (w1, lg) = (case err of
                        Some e \<Rightarrow> (http_Error (StatusText 500) 500 w, [Error_msg e])
                      | None \<Rightarrow> (w, []))
      in \<lparr>resp = Respond (StatusText 200) 200 w1, world = s1, logged = lg\<rparr>)"

text \<open>\<^verbatim>\<open>func (env *Env) appReady\<close> (main.go 124-132).\<close>

definition appReady :: "'s Env \<Rightarrow> ResponseWriter \<Rightarrow> 's \<Rightarrow> 's served" where
  "appReady env w s =
     (let (err, s1) = CheckDBConn (app env) s;
          (w1, lg) = (case err of
                        Some e \<Rightarrow> (http_Error (StatusText 500) 500 w, [Error_msg e])
                      | None \<Rightarrow> (w, []))
      in \<lparr>resp = Respond (StatusText 200) 200 w1, world = s1, logged = lg\<rparr>)"

text \<open>\<^verbatim>\<open>func (env *Env) booksIndex\<close> (main.go 134-143). The result of Encode is dropped.\<close>

definition booksIndex :: "'s Env \<Rightarrow> ResponseWriter \<Rightarrow> 's \<Rightarrow> 's served" where
  "booksIndex env w s =
     (case All_books (books env) s of
        (Inl err, s1) \<Rightarrow>
          \<lparr>resp = http_Error (StatusText 500) 500 w, world = s1, logged = [Error_msg err]\<rparr>
      | (Inr bks, s1) \<Rightarrow>
          \<lparr>resp = snd (Encode (Marshal_Books bks) w), world = s1, logged = []\<rparr>)"

text \<open>
  \<^verbatim>\<open>func (env *Env) bookByISBN\<close> (main.go 145-157); \<open>isbn\<close> is the path variable
  \<^verbatim>\<open>mux.Vars(r)["isbn"]\<close>.
\<close>

definition bookByISBN :: "'s Env \<Rightarrow> string \<Rightarrow> ResponseWriter \<Rightarrow> 's \<Rightarrow> 's served" where
  "bookByISBN env isbn w s =
     (case Get (books env) isbn s of
        (Inl err, s1) \<Rightarrow>
          \<lparr>resp = http_Error (StatusText 500) 500 w, world = s1, logged = [Error_msg err]\<rparr>
      | (Inr bk, s1) \<Rightarrow>
          \<lparr>resp = snd (Encode (Marshal_Book bk) w), world = s1, logged = []\<rparr>)"

text \<open>\<^verbatim>\<open>func (env *Env) createBook\<close> (main.go 159-177).\<close>

definition createBook :: "'s Env \<Rightarrow> body \<Rightarrow> ResponseWriter \<Rightarrow> 's \<Rightarrow> 's served" where
  "createBook env b w s =
     (case Decode b of
        Inl err \<Rightarrow>
          \<lparr>resp = http_Error (StatusText 400) 400 w, world = s, logged = [Error_msg err]\<rparr>
      | Inr bk \<Rightarrow>
          (case Create (books env) bk s of
             ((Some err, bk'), s1) \<Rightarrow>
               \<lparr>resp = http_Error (StatusText 500) 500 w, world = s1, logged = [Error_msg err]\<rparr>
           | ((None, bk'), s1) \<Rightarrow>
               \<lparr>resp = snd (Encode (Marshal_Book bk') w), world = s1, logged = []\<rparr>))"

text \<open>
  The routes registered in \<^verbatim>\<open>main\<close> (main.go 93-98), each with the handler it is
  registered for. Path matching by the router is not modelled.
\<close>

datatype route =
    GET_healthz
  | GET_readyz
  | GET_books
  | POST_books body
  | GET_books_isbn string

fun handle :: "'s Env \<Rightarrow> route \<Rightarrow> 's \<Rightarrow> 's served" where
  "handle env GET_healthz s = appHealth env fresh s"
| "handle env GET_readyz s = appReady env fresh s"
| "handle env GET_books s = booksIndex env fresh s"
| "handle env (POST_books b) s = createBook env b fresh s"
| "handle env (GET_books_isbn isbn) s = bookByISBN env isbn fresh s"

text \<open>
  The test double of the repository's test file: \<^verbatim>\<open>mockBookModel\<close>. Its prices are
  the float32 values of 9.44 and 5.99.
\<close>

definition mockBookModel :: "'s BooksI" where
  "mockBookModel =
     \<lparr>All_books = (\<lambda>s. (Inr (append_slice
                 (append_slice NilSlice
                    \<lparr>Isbn = ''978-1503261969'', Title = ''Emma'', Author = ''Jayne Austen'',
                     Price = 0x41170A3D\<rparr>)
                 \<lparr>Isbn = ''978-1505255607'', Title = ''The Time Machine'',
                  Author = ''H. G. Wells'', Price = 0x40BFAE14\<rparr>), s)),
      Get = (\<lambda>isbn s. (Inr \<lparr>Isbn = ''978-1505255607'', Title = ''The Time Machine'',
                             Author = ''H. G. Wells'', Price = 0x40BFAE14\<rparr>, s)),
      Create = (\<lambda>bk s. ((None, bk), s))\<rparr>"

section \<open>database/sql, as far as the repository uses it\<close>

text \<open>
  The database behind \<^verbatim>\<open>*sql.DB\<close> is a parameter: a record of the operations the
  program calls, over a database state \<open>'db\<close> and result rows \<open>'row\<close>. Any of them
  may fail. \<open>Scan_Book\<close> is \<^verbatim>\<open>rows.Scan\<close> with the four destinations
  \<^verbatim>\<open>(*string, *string, *string, *float32)\<close>: the row's columns in column order,
  converted by database/sql, or its error. \<open>Scan_any\<close> is \<^verbatim>\<open>rows.Scan\<close> with one
  destination of type \<^verbatim>\<open>*any\<close>.
\<close>

datatype sqlarg = ArgString string | ArgFloat32 float32

text \<open>
  A result set: the rows that \<^verbatim>\<open>Next\<close> delivers, the error \<^verbatim>\<open>rows.Err()\<close>
  reports once they are used up, and the error of \<^verbatim>\<open>rows.Close()\<close>.
\<close>

record 'row Rows =
  rows :: "'row list"
  rows_Err :: "error option"
  rows_Close :: "error option"

record ('db, 'row) driver =
  Prepare :: "'db \<Rightarrow> string \<Rightarrow> error option"
  Query :: "'db \<Rightarrow> string \<Rightarrow> sqlarg list \<Rightarrow> error + 'row Rows"
  Exec :: "'db \<Rightarrow> string \<Rightarrow> sqlarg list \<Rightarrow> error + 'db"
  Scan_Book :: "'row \<Rightarrow> error + (string \<times> string \<times> string \<times> float32)"
  Scan_any :: "'row \<Rightarrow> error option"

text \<open>
  The state behind the real implementations: the database, and a record of every
  statement handed to it, in order. The record is what the claims about statements
  and about contacting the database are stated on.
\<close>

datatype sqlop =
    OpPrepare string
  | OpQuery string "sqlarg list"
  | OpExec string "sqlarg list"

fun op_text :: "sqlop \<Rightarrow> string" where
  "op_text (OpPrepare q) = q"
| "op_text (OpQuery q args) = q"
| "op_text (OpExec q args) = q"

record 'db sqlDB =
  conn :: 'db
  trace :: "sqlop list"

text \<open>\<^verbatim>\<open>DB.Prepare(query)\<close>; a prepared statement is given by its text.\<close>

definition DB_Prepare ::
  "('db, 'row) driver \<Rightarrow> string \<Rightarrow> 'db sqlDB \<Rightarrow> error option \<times> 'db sqlDB" where
  "DB_Prepare drv q s = (Prepare drv (conn s) q, s\<lparr>trace := trace s @ [OpPrepare q]\<rparr>)"

text \<open>\<^verbatim>\<open>Stmt.Query(args...)\<close>, \<^verbatim>\<open>Stmt.QueryRow(args...)\<close> and \<^verbatim>\<open>DB.Query(query)\<close>.\<close>

definition DB_Query ::
  "('db, 'row) driver \<Rightarrow> string \<Rightarrow> sqlarg list \<Rightarrow> 'db sqlDB \<Rightarrow> (error + 'row Rows) \<times> 'db sqlDB" where
  "DB_Query drv q args s = (Query drv (conn s) q args, s\<lparr>trace := trace s @ [OpQuery q args]\<rparr>)"

text \<open>\<^verbatim>\<open>Stmt.Exec(args...)\<close>.\<close>

definition Stmt_Exec ::
  "('db, 'row) driver \<Rightarrow> string \<Rightarrow> sqlarg list \<Rightarrow> 'db sqlDB \<Rightarrow> error option \<times> 'db sqlDB" where
  "Stmt_Exec drv q args s =
     (case Exec drv (conn s) q args of
        Inl err \<Rightarrow> (Some err, s\<lparr>trace := trace s @ [OpExec q args]\<rparr>)
      | Inr db' \<Rightarrow> (None, s\<lparr>conn := db', trace := trace s @ [OpExec q args]\<rparr>))"

definition ErrNoRows :: error where
  "ErrNoRows = Error ''sql: no rows in result set''"

text \<open>
  \<^verbatim>\<open>Row.Scan\<close> on the result of \<^verbatim>\<open>QueryRow\<close>: the query's error; with no first row
  the iteration error or \<^verbatim>\<open>ErrNoRows\<close>; else the scan of the first row and then
  the error of closing the rows.
\<close>

definition Row_Scan ::
  "('db, 'row) driver \<Rightarrow> error + 'row Rows \<Rightarrow> error + (string \<times> string \<times> string \<times> float32)" where
  "Row_Scan drv r =
     (case r of
        Inl err \<Rightarrow> Inl err
      | Inr rs \<Rightarrow>
          (case rows rs of
             [] \<Rightarrow> (case rows_Err rs of Some err \<Rightarrow> Inl err | None \<Rightarrow> Inl ErrNoRows)
           | row # rest \<Rightarrow>
               (case Scan_Book drv row of
                  Inl err \<Rightarrow> Inl err
                | Inr v \<Rightarrow> (case rows_Close rs of Some err \<Rightarrow> Inl err | None \<Rightarrow> Inr v))))"

section \<open>The repository: BookModel and App\<close>

text \<open>
  The loop of \<^verbatim>\<open>BookModel.All\<close> (main.go 207-216): each row is scanned into
  \<^verbatim>\<open>(&bk.Isbn, &bk.Title, &bk.Author, &bk.Price)\<close> and appended; the first scan
  error ends the method.
\<close>

fun All_loop :: "('db, 'row) driver \<Rightarrow> 'row list \<Rightarrow> Book slice \<Rightarrow> error + Book slice" where
  "All_loop drv [] bks = Inr bks"
| "All_loop drv (row # rest) bks =
     (case Scan_Book drv row of
        Inl err \<Rightarrow> Inl err
      | Inr (c1, c2, c3, c4) \<Rightarrow>
          All_loop drv rest (append_slice bks \<lparr>Isbn = c1, Title = c2, Author = c3, Price = c4\<rparr>))"

text \<open>\<^verbatim>\<open>func (m BookModel) All\<close> (main.go 192-222).\<close>

definition BookModel_All :: "('db, 'row) driver \<Rightarrow> 'db sqlDB \<Rightarrow> (error + Book slice) \<times> 'db sqlDB" where
  "BookModel_All drv s =
     (case DB_Prepare drv ''SELECT * FROM books'' s of
        (Some err, s1) \<Rightarrow> (Inl err, s1)
      | (None, s1) \<Rightarrow>
          (case DB_Query drv ''SELECT * FROM books'' [] s1 of
             (Inl err, s2) \<Rightarrow> (Inl err, s2)
           | (Inr rs, s2) \<Rightarrow>
               (case All_loop drv (rows rs) NilSlice of
                  Inl err \<Rightarrow> (Inl err, s2)
                | Inr bks \<Rightarrow>
                    (case rows_Err rs of
                       Some err \<Rightarrow> (Inl err, s2)
                     | None \<Rightarrow> (Inr bks, s2)))))"

text \<open>\<^verbatim>\<open>func (m BookModel) Get\<close> (main.go 225-239).\<close>

definition BookModel_Get ::
  "('db, 'row) driver \<Rightarrow> string \<Rightarrow> 'db sqlDB \<Rightarrow> (error + Book) \<times> 'db sqlDB" where
  "BookModel_Get drv isbn s =
     (case DB_Prepare drv ''SELECT * FROM books WHERE isbn=$1;'' s of
        (Some err, s1) \<Rightarrow> (Inl err, s1)
      | (None, s1) \<Rightarrow>
          (case DB_Query drv ''SELECT * FROM books WHERE isbn=$1;'' [ArgString isbn] s1 of
             (r, s2) \<Rightarrow>
               (case Row_Scan drv r of
                  Inl err \<Rightarrow> (Inl err, s2)
                | Inr (c1, c2, c3, c4) \<Rightarrow>
                    (Inr \<lparr>Isbn = c1, Title = c2, Author = c3, Price = c4\<rparr>, s2))))"

text \<open>
  \<^verbatim>\<open>func (m BookModel) Create\<close> (main.go 241-254). The method reads the four fields
  of \<^verbatim>\<open>*bk\<close> and assigns to none, so the book is returned as received.
\<close>

definition BookModel_Create ::
  "('db, 'row) driver \<Rightarrow> Book \<Rightarrow> 'db sqlDB \<Rightarrow> (error option \<times> Book) \<times> 'db sqlDB" where
  "BookModel_Create drv bk s =
     (case DB_Prepare drv ''INSERT INTO books (isbn, title, author, price) VALUES ($1, $2, $3, $4);'' s of
        (Some err, s1) \<Rightarrow> ((Some err, bk), s1)
      | (None, s1) \<Rightarrow>
          (case Stmt_Exec drv ''INSERT INTO books (isbn, title, author, price) VALUES ($1, $2, $3, $4);''
                  [ArgString (Isbn bk), ArgString (Title bk), ArgString (Author bk),
                   ArgFloat32 (Price bk)] s1 of
             (Some err, s2) \<Rightarrow> ((Some err, bk), s2)
           | (None, s2) \<Rightarrow> ((None, bk), s2)))"

text \<open>The loop of \<^verbatim>\<open>App.CheckDBConn\<close> (main.go 298-305).\<close>

fun CheckDBConn_loop :: "('db, 'row) driver \<Rightarrow> 'row list \<Rightarrow> error option" where
  "CheckDBConn_loop drv [] = None"
| "CheckDBConn_loop drv (row # rest) =
     (case Scan_any drv row of Some err \<Rightarrow> Some err | None \<Rightarrow> CheckDBConn_loop drv rest)"

text \<open>\<^verbatim>\<open>func (a App) CheckDBConn\<close> (main.go 291-311).\<close>

definition App_CheckDBConn :: "('db, 'row) driver \<Rightarrow> 'db sqlDB \<Rightarrow> error option \<times> 'db sqlDB" where
  "App_CheckDBConn drv s =
     (case DB_Query drv ''SELECT 1'' [] s of
        (Inl err, s1) \<Rightarrow> (Some err, s1)
      | (Inr rs, s1) \<Rightarrow>
          (case CheckDBConn_loop drv (rows rs) of
             Some err \<Rightarrow> (Some err, s1)
           | None \<Rightarrow> (rows_Err rs, s1)))"

text \<open>
  The \<^verbatim>\<open>Env\<close> that \<^verbatim>\<open>main\<close> builds (main.go 86-89): both fields over the same
  database handle.
\<close>

definition main_Env :: "('db, 'row) driver \<Rightarrow> 'db sqlDB Env" where
  "main_Env drv =
     \<lparr>app = \<lparr>CheckDBConn = App_CheckDBConn drv\<rparr>,
      books = \<lparr>All_books = BookModel_All drv, Get = BookModel_Get drv,
               Create = BookModel_Create drv\<rparr>\<rparr>"

text \<open>The statements a call issued: what it added to the record.\<close>

definition issued :: "'db sqlDB \<Rightarrow> 'db sqlDB \<Rightarrow> sqlop list" where
  "issued s s' = drop (length (trace s)) (trace s')"

section \<open>The books table\<close>

text \<open>
  A model of the PostgreSQL table that the repository's README creates,
  \<^verbatim>\<open>books (isbn char(14) primary key, title varchar(255), author varchar(255),
  price decimal(5,2))\<close>, for exactly the statements the program issues. It is an
  instance of the driver record, used where a claim speaks of the table's content.
  A stored row holds the four column values as \<^verbatim>\<open>Scan\<close> converts them.

  The lengths of \<^verbatim>\<open>char(n)\<close> and \<^verbatim>\<open>varchar(n)\<close> count characters: in UTF-8, the
  bytes that are not continuation bytes. Storing into \<^verbatim>\<open>char(n)\<close> pads with
  spaces up to \<open>n\<close> characters; a longer value is an error unless only spaces are cut
  off. Comparison of \<^verbatim>\<open>char(n)\<close> values takes no account of trailing spaces.
  The primary key admits no two rows whose isbn compare equal.
  What PostgreSQL rejects for other reasons (bytes that are not UTF-8, a zero byte) is
  accepted here.
\<close>

type_synonym book_row = "string \<times> string \<times> string \<times> float32"

datatype pgrow = BookRow book_row | OneRow

definition char_length :: "string \<Rightarrow> nat" where
  "char_length s = length (filter (\<lambda>c. (of_char c :: nat) div 64 \<noteq> 2) s)"

definition rstrip :: "string \<Rightarrow> string" where
  "rstrip s = rev (dropWhile (\<lambda>c. c = CHR '' '') (rev s))"

definition bpchar :: "nat \<Rightarrow> string \<Rightarrow> string option" where
  "bpchar n s =
     (let t = rstrip s
      in if char_length t \<le> n then Some (t @ replicate (n - char_length t) (CHR '' ''))
         else None)"

definition varchar :: "nat \<Rightarrow> string \<Rightarrow> string option" where
  "varchar n s =
     (if char_length s \<le> n then Some s
      else let t = rstrip s
           in if char_length t \<le> n then Some (t @ replicate (n - char_length t) (CHR '' ''))
              else None)"

text \<open>
  The price column. \<^verbatim>\<open>Exec\<close> hands a float32 price to the driver, which sends it
  as a decimal text; PostgreSQL rounds the decimal to two places, half away from zero,
  and refuses what then needs more than five digits; what a query returns is the text
  of the stored number, which \<^verbatim>\<open>Scan\<close> converts with
  \<^verbatim>\<open>strconv.ParseFloat(text, 32)\<close>. All of it is computed on integers: a finite
  float32 is a whole number of units of \<open>2 ^ -149\<close>, and a decimal is a fraction of
  two integers.
\<close>

text \<open>The value of a finite float32, in units of \<open>2 ^ -149\<close>: sign, exponent field, mantissa.\<close>

definition float32_units :: "float32 \<Rightarrow> int" where
  "float32_units f =
     (let n = uint f; M = n mod 2 ^ 23; E = n div 2 ^ 23 mod 256;
          u = (if E = 0 then M else (2 ^ 23 + M) * 2 ^ nat (E - 1))
      in if n div 2 ^ 31 = 1 then - u else u)"

text \<open>The integer nearest to \<open>num / den\<close> for \<open>0 < den\<close>, a tie going to the even one.\<close>

definition round_half_even :: "int \<Rightarrow> int \<Rightarrow> int" where
  "round_half_even num den =
     (let f = num div den; r = num mod den
      in if 2 * r < den then f else if den < 2 * r then f + 1 else if even f then f else f + 1)"

text \<open>
  The least \<open>t\<close>, up to the bound \<open>n\<close>, with \<open>num / (den * 2 ^ t) < 2 ^ 24\<close>: the
  scaling under which a value has a mantissa of 24 bits.
\<close>

fun binade :: "nat \<Rightarrow> int \<Rightarrow> int \<Rightarrow> nat" where
  "binade 0 num den = 0"
| "binade (Suc n) num den = (if num < 2 ^ 24 * den then 0 else Suc (binade n num (2 * den)))"

text \<open>
  \<^verbatim>\<open>strconv.ParseFloat(text, 32)\<close> for the decimal \<open>a / b\<close> with \<open>0 < b\<close>: the bit
  pattern of the nearest float32, ties to even; subnormal below \<open>2 ^ -126\<close>, an
  infinity beyond the largest float32.
\<close>

definition ParseFloat32_pos :: "int \<Rightarrow> int \<Rightarrow> int" where
  "ParseFloat32_pos a b =
     (let t = binade 254 (a * 2 ^ 149) b;
          m = round_half_even (a * 2 ^ 149) (b * 2 ^ t);
          (m', t') = (if m = 2 ^ 24 then (2 ^ 23, t + 1) else (m, t))
      in if m' < 2 ^ 23 then m'
         else if 254 \<le> t' then 255 * 2 ^ 23
         else (int t' + 1) * 2 ^ 23 + (m' - 2 ^ 23))"

definition ParseFloat32 :: "int \<Rightarrow> int \<Rightarrow> float32" where
  "ParseFloat32 a b =
     (if a < 0 then word_of_int (2 ^ 31 + ParseFloat32_pos (- a) b)
      else word_of_int (ParseFloat32_pos a b))"

text \<open>The integer nearest to \<open>num / den\<close> for \<open>0 < den\<close>, a tie going away from zero.\<close>

definition round_half_away :: "int \<Rightarrow> int \<Rightarrow> int" where
  "round_half_away num den =
     (if 0 \<le> num then (2 * num + den) div (2 * den) else - ((2 * (- num) + den) div (2 * den)))"

text \<open>
  A value of \<^verbatim>\<open>decimal(5,2)\<close>: a number of hundredths below 100000 in absolute
  value, or NaN. Storing a price rounds its value to hundredths; an infinity and a
  number of 100000 hundredths or more are refused. The driver sends the shortest
  decimal that reads back as the same float64, not the exact value; for a valid price
  the two round to the same hundredths (\<open>column_rounding\<close> below), and the exact value
  is rounded here.
\<close>

datatype numeric = Numeric int | Numeric_NaN

definition numeric_of_float32 :: "float32 \<Rightarrow> numeric option" where
  "numeric_of_float32 p =
     (if float32_finite p
      then (let h = round_half_away (100 * float32_units p) (2 ^ 149)
            in if \<bar>h\<bar> < 100000 then Some (Numeric h) else None)
      else if uint p mod 2 ^ 23 \<noteq> 0 then Some Numeric_NaN else None)"

fun float32_of_numeric :: "numeric \<Rightarrow> float32" where
  "float32_of_numeric (Numeric h) = ParseFloat32 h 100"
| "float32_of_numeric Numeric_NaN = 0x7FC00000"

text \<open>
  The price column of the schema: the float32 that a price reads back as after it was
  stored, \<open>None\<close> when the column refuses it.
\<close>

definition decimal52 :: "float32 \<Rightarrow> float32 option" where
  "decimal52 p = map_option float32_of_numeric (numeric_of_float32 p)"

text \<open>
  The table model takes its price column as an argument \<open>num\<close>, so that what does not
  depend on prices holds for every column; \<open>books_table decimal52\<close> is the table of
  the schema.
\<close>

fun pg_insert :: "(float32 \<Rightarrow> float32 option) \<Rightarrow> book_row list \<Rightarrow> sqlarg list \<Rightarrow> error + book_row list" where
  "pg_insert num tbl [ArgString a, ArgString b, ArgString c, ArgFloat32 d] =
     (case bpchar 14 a of
        None \<Rightarrow> Inl (Error ''pq: value too long for type character(14)'')
      | Some a' \<Rightarrow>
     (case varchar 255 b of
        None \<Rightarrow> Inl (Error ''pq: value too long for type character varying(255)'')
      | Some b' \<Rightarrow>
     (case varchar 255 c of
        None \<Rightarrow> Inl (Error ''pq: value too long for type character varying(255)'')
      | Some c' \<Rightarrow>
     (case num d of
        None \<Rightarrow> Inl (Error ''pq: numeric field overflow'')
      | Some d' \<Rightarrow>
          if rstrip a' \<in> (\<lambda>r. rstrip (fst r)) ` set tbl
          then Inl (Error ''pq: duplicate key value violates unique constraint books_pkey'')
          else Inr (tbl @ [(a', b', c', d')])))))"
| "pg_insert num tbl args = Inl (Error ''pq: bind message does not match the statement'')"

fun pg_select :: "book_row list \<Rightarrow> sqlarg list \<Rightarrow> error + pgrow Rows" where
  "pg_select tbl [ArgString k] =
     Inr \<lparr>rows = map BookRow (filter (\<lambda>r. rstrip (fst r) = rstrip k) tbl),
          rows_Err = None, rows_Close = None\<rparr>"
| "pg_select tbl args = Inl (Error ''pq: bind message does not match the statement'')"

definition pg_Query :: "book_row list \<Rightarrow> string \<Rightarrow> sqlarg list \<Rightarrow> error + pgrow Rows" where
  "pg_Query tbl q args =
     (if q = ''SELECT * FROM books''
      then Inr \<lparr>rows = map BookRow tbl, rows_Err = None, rows_Close = None\<rparr>
      else if q = ''SELECT * FROM books WHERE isbn=$1;'' then pg_select tbl args
      else if q = ''SELECT 1'' then Inr \<lparr>rows = [OneRow], rows_Err = None, rows_Close = None\<rparr>
      else Inl (Error ''pq: statement outside the model''))"

definition pg_Exec ::
  "(float32 \<Rightarrow> float32 option) \<Rightarrow> book_row list \<Rightarrow> string \<Rightarrow> sqlarg list \<Rightarrow> error + book_row list" where
  "pg_Exec num tbl q args =
     (if q = ''INSERT INTO books (isbn, title, author, price) VALUES ($1, $2, $3, $4);''
      then pg_insert num tbl args
      else Inl (Error ''pq: statement outside the model''))"

fun pg_Scan_Book :: "pgrow \<Rightarrow> error + book_row" where
  "pg_Scan_Book (BookRow r) = Inr r"
| "pg_Scan_Book OneRow = Inl (Error ''sql: expected 1 destination arguments in Scan, not 4'')"

fun pg_Scan_any :: "pgrow \<Rightarrow> error option" where
  "pg_Scan_any OneRow = None"
| "pg_Scan_any (BookRow r) = Some (Error ''sql: expected 4 destination arguments in Scan, not 1'')"

definition books_table :: "(float32 \<Rightarrow> float32 option) \<Rightarrow> (book_row list, pgrow) driver" where
  "books_table num =
     \<lparr>Prepare = (\<lambda>tbl q. None), Query = pg_Query, Exec = pg_Exec num,
      Scan_Book = pg_Scan_Book, Scan_any = pg_Scan_any\<rparr>"

text \<open>
  A valid price, after the data model of the specification: a decimal number with two
  fractional digits, not negative, within \<^verbatim>\<open>decimal(5,2)\<close>; as a float32, the one
  that \<^verbatim>\<open>ParseFloat\<close> makes of \<open>k / 100\<close> for some \<open>k\<close> from 0 to 99999.
\<close>

definition valid_price :: "float32 \<Rightarrow> bool" where
  "valid_price p = (\<exists>k. 0 \<le> k \<and> k < 100000 \<and> p = ParseFloat32 k 100)"

text \<open>
  A valid Book: an ISBN of 14 characters, a title and an author of at most 255, and a
  valid price.
\<close>

definition valid_Book :: "Book \<Rightarrow> bool" where
  "valid_Book bk =
     (char_length (Isbn bk) = 14 \<and> char_length (Title bk) \<le> 255 \<and>
      char_length (Author bk) \<le> 255 \<and> valid_price (Price bk))"

section \<open>Startup: init and main\<close>

text \<open>The configuration keys (main.go 18-34).\<close>

definition PORT :: string where "PORT = ''PORT''"
definition VAULT_ROLE :: string where "VAULT_ROLE = ''VAULT_ROLE''"
definition VAULT_KV_MOUNT :: string where "VAULT_KV_MOUNT = ''VAULT_KV_MOUNT''"
definition VAULT_BOOKSTORE_ENV :: string where "VAULT_BOOKSTORE_ENV = ''VAULT_BOOKSTORE_ENV''"
definition KUBE_SVC_ACCT_TOKEN :: string where "KUBE_SVC_ACCT_TOKEN = ''KUBE_SVC_ACCT_TOKEN''"
definition DB_HOST :: string where "DB_HOST = ''DB_HOST''"
definition DB_PORT :: string where "DB_PORT = ''DB_PORT''"
definition DB_NAME :: string where "DB_NAME = ''DB_NAME''"
definition DB_USER :: string where "DB_USER = ''DB_USER''"
definition DB_PASS :: string where "DB_PASS = ''DB_PASS''"
definition DB_SSL :: string where "DB_SSL = ''DB_SSL''"

text \<open>
  The data of a fetched secret, \<^verbatim>\<open>secret.Data\<close>: its entries, with string values
  (what the program reads with \<^verbatim>\<open>GetString\<close>).
\<close>

type_synonym secret_data = "(string \<times> string) list"

text \<open>
  The Viper operations that the program calls, over a configuration \<open>'c\<close>, and the
  Vault operations. Both libraries are parameters of \<^verbatim>\<open>init\<close>. A Vault client
  is given by whether a login has stored a token in it; \<open>Login\<close> returns whether the
  auth info is non-nil, and the client.
\<close>

record 'c viper_api =
  viper_New :: 'c
  AutomaticEnv :: "'c \<Rightarrow> 'c"
  GetString :: "'c \<Rightarrow> string \<Rightarrow> string"
  MergeConfigMap :: "'c \<Rightarrow> secret_data \<Rightarrow> error option \<times> 'c"

record vault_Client =
  has_token :: bool

record vault_api =
  NewClient :: "error + vault_Client"
  NewKubernetesAuth :: "string \<Rightarrow> string \<Rightarrow> error option"
  Login :: "vault_Client \<Rightarrow> string \<Rightarrow> string \<Rightarrow> error + (bool \<times> vault_Client)"
  KVv2_Get :: "vault_Client \<Rightarrow> string \<Rightarrow> string \<Rightarrow> error + secret_data"

text \<open>\<^verbatim>\<open>func loginVaultKubernetes\<close> (main.go 256-277).\<close>

definition loginVaultKubernetes ::
  "'c viper_api \<Rightarrow> vault_api \<Rightarrow> 'c \<Rightarrow> vault_Client \<Rightarrow> error option \<times> vault_Client" where
  "loginVaultKubernetes V vault conf client =
     (let vaultRole = GetString V conf VAULT_ROLE;
          kubeToken = GetString V conf KUBE_SVC_ACCT_TOKEN
      in case NewKubernetesAuth vault vaultRole kubeToken of
           Some err \<Rightarrow>
             (Some (Error (''unable to initialize Kubernetes auth method: '' @ Error_msg err)),
              client)
         | None \<Rightarrow>
             (case Login vault client vaultRole kubeToken of
                Inl err \<Rightarrow>
                  (Some (Error (''unable to log in with Kubernetes auth: '' @ Error_msg err)),
                   client)
              | Inr (authInfo, client') \<Rightarrow>
                  if \<not> authInfo
                  then (Some (Error ''no auth info was returned after login''), client')
                  else (None, client')))"

text \<open>
  How \<^verbatim>\<open>init\<close> ends: \<^verbatim>\<open>log.Fatalf\<close> logs and exits the process; otherwise the
  configuration is left in the package variable \<^verbatim>\<open>conf\<close>.
\<close>

datatype 'c startup = Fatal | Started 'c

record 'c init_result =
  outcome :: "'c startup"
  init_log :: "string list"

text \<open>\<^verbatim>\<open>func init\<close> (main.go 40-66).\<close>

definition init :: "'c viper_api \<Rightarrow> vault_api \<Rightarrow> 'c init_result" where
  "init V vault =
     (let conf = AutomaticEnv V (viper_New V);
          kvMount = GetString V conf VAULT_KV_MOUNT;
          bookstoreEnv = GetString V conf VAULT_BOOKSTORE_ENV
      in case NewClient vault of
           Inl err \<Rightarrow>
             \<lparr>outcome = Fatal,
              init_log = [''unable to initialize Vault client: '' @ Error_msg err]\<rparr>
         | Inr client \<Rightarrow>
             (let (lerr, client1) = loginVaultKubernetes V vault conf client;
                  lg = (case lerr of
                          Some err \<Rightarrow> [''vault login failed: %w '' @ Error_msg err]
                        | None \<Rightarrow> [])
              in case KVv2_Get vault client1 kvMount bookstoreEnv of
                   Inl err \<Rightarrow>
                     \<lparr>outcome = Fatal,
                      init_log = lg @ [''unable to read secret: '' @ Error_msg err]\<rparr>
                 | Inr data \<Rightarrow>
                     (case MergeConfigMap V conf data of
                        (Some err, conf1) \<Rightarrow>
                          \<lparr>outcome = Fatal,
                           init_log = lg @ [''unable to merge secret: '' @ Error_msg err]\<rparr>
                      | (None, conf1) \<Rightarrow> \<lparr>outcome = Started conf1, init_log = lg\<rparr>)))"

text \<open>
  \<^verbatim>\<open>func main\<close> (main.go 68-101), up to the call of \<^verbatim>\<open>ListenAndServe\<close>:
  \<open>sql_Open\<close> is \<^verbatim>\<open>sql.Open\<close>, a parameter. The process is then listening on
  the address with a handle for the data source name, or has exited.
\<close>

datatype process = Exited | Listening string string

definition main :: "'c viper_api \<Rightarrow> (string \<Rightarrow> string \<Rightarrow> error option) \<Rightarrow> 'c \<Rightarrow> process \<times> string list" where
  "main V sql_Open conf =
     (let port = GetString V conf PORT;
          dbUser = GetString V conf DB_USER;
          dbPass = GetString V conf DB_PASS;
          dbHost = GetString V conf DB_HOST;
          dbPort = GetString V conf DB_PORT;
          dbName = GetString V conf DB_NAME;
          dbSSL = GetString V conf DB_SSL;
          dataSourceName = ''postgres://'' @ dbUser @ '':'' @ dbPass @ ''@'' @ dbHost @ '':''
                             @ dbPort @ ''/'' @ dbName @ ''?sslmode='' @ dbSSL
      in case sql_Open ''postgres'' dataSourceName of
           Some err \<Rightarrow> (Exited, [Error_msg err])
         | None \<Rightarrow> (Listening ('':'' @ port) dataSourceName, []))"

text \<open>
  The process: Go runs \<^verbatim>\<open>init\<close> before \<^verbatim>\<open>main\<close>, and \<^verbatim>\<open>main\<close> only when
  \<^verbatim>\<open>init\<close> has returned.
\<close>

definition run :: "'c viper_api \<Rightarrow> vault_api \<Rightarrow> (string \<Rightarrow> string \<Rightarrow> error option) \<Rightarrow> process \<times> string list" where
  "run V vault sql_Open =
     (case outcome (init V vault) of
        Fatal \<Rightarrow> (Exited, init_log (init V vault))
      | Started conf \<Rightarrow>
          (case main V sql_Open conf of (p, lg) \<Rightarrow> (p, init_log (init V vault) @ lg)))"

section \<open>Viper, as far as the program configures it\<close>

text \<open>
  A model of the Viper library for the three operations the program calls, after
  Viper's documented order of precedence (explicit \<^verbatim>\<open>Set\<close>, flag, environment,
  configuration, key/value store, default), of which the program uses two layers:
  the environment, through \<^verbatim>\<open>AutomaticEnv\<close>, and the configuration, into which
  \<^verbatim>\<open>MergeConfigMap\<close> merges. Keys are compared in lower case; the environment
  variable of a key is the key in upper case; an environment variable set to the empty
  string counts as unset. The model covers keys and names in ASCII without the key
  delimiter (a dot). \<open>environ\<close> is the environment of the process.
\<close>

definition lower_byte :: "char \<Rightarrow> char" where
  "lower_byte c =
     (let n = (of_char c :: nat) in if 65 \<le> n \<and> n \<le> 90 then char_of (n + 32) else c)"

definition ToLower :: "string \<Rightarrow> string" where
  "ToLower s = map lower_byte s"

definition ToUpper :: "string \<Rightarrow> string" where
  "ToUpper s = map upper_byte s"

text \<open>The keys the model covers: bytes below 128, no dot.\<close>

definition plain_key :: "string \<Rightarrow> bool" where
  "plain_key key = (list_all (\<lambda>c. (of_char c :: nat) < 128) key \<and> CHR ''.'' \<notin> set key)"

record Viper =
  automaticEnvApplied :: bool
  config :: "(string \<times> string) list"

definition Viper_New :: Viper where
  "Viper_New = \<lparr>automaticEnvApplied = False, config = []\<rparr>"

definition Viper_AutomaticEnv :: "Viper \<Rightarrow> Viper" where
  "Viper_AutomaticEnv v = v\<lparr>automaticEnvApplied := True\<rparr>"

text \<open>\<^verbatim>\<open>getEnv\<close>: the variable's value when it is set and not empty.\<close>

definition getEnv :: "(string \<rightharpoonup> string) \<Rightarrow> string \<Rightarrow> string option" where
  "getEnv environ name =
     (case environ name of
        Some val \<Rightarrow> if val \<noteq> [] then Some val else None
      | None \<Rightarrow> None)"

text \<open>
  \<^verbatim>\<open>GetString\<close>: the environment first, then the configuration, else the empty
  string.
\<close>

definition Viper_GetString :: "(string \<rightharpoonup> string) \<Rightarrow> Viper \<Rightarrow> string \<Rightarrow> string" where
  "Viper_GetString environ v key =
     (let lcaseKey = ToLower key;
          fromEnv = (if automaticEnvApplied v then getEnv environ (ToUpper lcaseKey) else None)
      in case fromEnv of
           Some val \<Rightarrow> val
         | None \<Rightarrow> (case map_of (config v) lcaseKey of Some val \<Rightarrow> val | None \<Rightarrow> []))"

text \<open>
  \<^verbatim>\<open>MergeConfigMap\<close>: the keys of the given map in lower case, its entries over
  those of the configuration. It returns no error.
\<close>

definition Viper_MergeConfigMap :: "Viper \<Rightarrow> secret_data \<Rightarrow> error option \<times> Viper" where
  "Viper_MergeConfigMap v cfg =
     (None, v\<lparr>config := map (\<lambda>(k, val). (ToLower k, val)) cfg @ config v\<rparr>)"

definition viper :: "(string \<rightharpoonup> string) \<Rightarrow> Viper viper_api" where
  "viper environ =
     \<lparr>viper_New = Viper_New, AutomaticEnv = Viper_AutomaticEnv,
      GetString = Viper_GetString environ, MergeConfigMap = Viper_MergeConfigMap\<rparr>"

section \<open>Inputs used in the examples\<close>

text \<open>A health checker whose check fails, and an empty books table with no statement issued.\<close>

definition failing_App :: "'s AppI" where
  "failing_App = \<lparr>CheckDBConn = (\<lambda>s. (Some (Error ''connection refused''), s))\<rparr>"

definition empty_DB :: "book_row list sqlDB" where
  "empty_DB = \<lparr>conn = [], trace = []\<rparr>"

text \<open>
  The price column of the schema cut down to the three prices of the examples, the
  float32 values of 9.44 and 5.99 and zero, which read back unchanged
  (\<open>example_num_decimal52\<close> below).
\<close>

definition example_num :: "float32 \<Rightarrow> float32 option" where
  "example_num p = (if p = 0x41170A3D \<or> p = 0x40BFAE14 \<or> p = 0 then Some p else None)"

definition Emma :: Book where
  "Emma = \<lparr>Isbn = ''978-1503261969'', Title = ''Emma'', Author = ''Jayne Austen'',
           Price = 0x41170A3D\<rparr>"

text \<open>The request body \<^verbatim>\<open>{"ISBN":"978-1503261969","Title":"Emma","Author":"Jayne Austen","Price":9.44}\<close>.\<close>

definition Emma_body :: body where
  "Emma_body =
     Doc (JObject [(''ISBN'', JString ''978-1503261969''), (''Title'', JString ''Emma''),
                   (''Author'', JString ''Jayne Austen''), (''Price'', JNumber 0x41170A3D)])"

definition one_row_DB :: "book_row list sqlDB" where
  "one_row_DB =
     \<lparr>conn = [(''978-1505255607'', ''The Time Machine'', ''H. G. Wells'', 0x40BFAE14)],
      trace = []\<rparr>"

text \<open>
  A Vault that answers every call, with a secret of one entry; the same with a login
  that fails; with a fetch that fails. A process environment with one variable. A
  configuration library whose merge fails.
\<close>

definition vault_ok :: vault_api where
  "vault_ok =
     \<lparr>NewClient = Inr \<lparr>has_token = False\<rparr>,
      NewKubernetesAuth = (\<lambda>role path. None),
      Login = (\<lambda>c role path. Inr (True, c\<lparr>has_token := True\<rparr>)),
      KVv2_Get = (\<lambda>c mount path. Inr [(''DB_USER'', ''vaultuser'')])\<rparr>"

definition vault_no_login :: vault_api where
  "vault_no_login = vault_ok\<lparr>Login := (\<lambda>c role path. Inl (Error ''permission denied''))\<rparr>"

definition vault_no_secret :: vault_api where
  "vault_no_secret =
     vault_no_login\<lparr>KVv2_Get := (\<lambda>c mount path. Inl (Error ''secret not found''))\<rparr>"

definition example_environ :: "string \<rightharpoonup> string" where
  "example_environ = [''DB_USER'' \<mapsto> ''envuser'']"

definition viper_no_merge :: "(string \<rightharpoonup> string) \<Rightarrow> Viper viper_api" where
  "viper_no_merge environ =
     (viper environ)\<lparr>MergeConfigMap := (\<lambda>c cfg. (Some (Error ''merge failed''), c))\<rparr>"

section \<open>Theorems\<close>

subsection \<open>The response writer\<close>

lemmas rw_defs = http_Error_def Respond_def Fprintln_def Write_def WriteHeader_def
  Header_Set_def StatusText_def fresh_def Encode_def

lemma status_http_Error_fresh: "status (http_Error t c fresh) = Some c"
  by (simp add: rw_defs)

lemma written_http_Error_fresh: "written (http_Error t c fresh) = [Text (t @ [CHR 0x0A])]"
  by (simp add: rw_defs)

lemma status_Encode_fresh: "status (snd (Encode (Inr j) fresh)) = Some 200"
  by (simp add: rw_defs)

lemma written_Encode_fresh: "written (snd (Encode (Inr j) fresh)) = [JsonLine j]"
  by (simp add: rw_defs)

subsection \<open>The health routes\<close>

text \<open>
  The two handlers are the same function of the checker, and a successful check is
  answered with status 200, the text OK and a plain-text content type.
\<close>

lemma appReady_appHealth: "appReady = appHealth"
  by (simp add: appReady_def appHealth_def fun_eq_iff)

lemma appHealth_ok:
  assumes "CheckDBConn (app env) s = (None, s')"
  shows "status (resp (appHealth env fresh s)) = Some 200"
    and "written (resp (appHealth env fresh s)) = [Text (''OK'' @ [CHR 0x0A])]"
    and "sent (resp (appHealth env fresh s)) ''Content-Type'' = Some ''text/plain; charset=utf-8''"
  using assms by (simp_all add: appHealth_def rw_defs)

lemma appHealth_failing:
  assumes "CheckDBConn (app env) s = (Some e, s')"
  shows "status (resp (appHealth env fresh s)) = Some 500"
    and "written (resp (appHealth env fresh s)) =
           [Text (''Internal Server Error'' @ [CHR 0x0A]), Text (''OK'' @ [CHR 0x0A])]"
  using assms by (simp_all add: appHealth_def rw_defs)

text \<open>
  Claim C2. GET /healthz and GET /readyz answer a successful check with 200 and the
  text OK, and a failed check with 500 and plain error text, the two routes alike. The
  first and the last hold (\<open>appHealth_ok\<close>, \<open>appReady_appHealth\<close>). On a failed check
  the handlers write the 500 response and then, since the error branch does not return,
  go on to \<^verbatim>\<open>Respond\<close>: the second \<^verbatim>\<open>WriteHeader\<close> changes nothing and the text OK
  is written after the error text. The theorem evaluates both routes with a checker
  that fails.
\<close>

theorem health_failing_check_body:
  "status (resp (handle \<lparr>app = failing_App, books = mockBookModel\<rparr> GET_healthz ())) = Some 500 \<and>
   written (resp (handle \<lparr>app = failing_App, books = mockBookModel\<rparr> GET_healthz ())) =
     [Text (''Internal Server Error'' @ [CHR 0x0A]), Text (''OK'' @ [CHR 0x0A])] \<and>
   status (resp (handle \<lparr>app = failing_App, books = mockBookModel\<rparr> GET_readyz ())) = Some 500 \<and>
   written (resp (handle \<lparr>app = failing_App, books = mockBookModel\<rparr> GET_readyz ())) =
     [Text (''Internal Server Error'' @ [CHR 0x0A]), Text (''OK'' @ [CHR 0x0A])]"
  by (simp add: appReady_appHealth appHealth_failing failing_App_def)

subsection \<open>POST /books\<close>

text \<open>
  Claim C6. When the body cannot be decoded (\<^verbatim>\<open>Decode\<close> returns an error), POST /books
  answers 400 with the status text and leaves the state behind the repository as it
  was, for every implementation of the repository: \<^verbatim>\<open>Create\<close> is not called. With
  the repository of \<^verbatim>\<open>main\<close> no statement is handed to the database.
\<close>

theorem createBook_undecodable:
  assumes "Decode b = Inl err"
  shows "status (resp (handle env (POST_books b) s)) = Some 400 \<and>
         written (resp (handle env (POST_books b) s)) = [Text (''Bad Request'' @ [CHR 0x0A])] \<and>
         world (handle env (POST_books b) s) = s \<and>
         issued s0 (world (handle (main_Env drv) (POST_books b) s0)) = []"
  using assms by (simp add: createBook_def issued_def rw_defs)

theorem createBook_undecodable_witness:
  "status (resp (handle (main_Env (books_table example_num))
       (POST_books (Malformed (Error ''unexpected end of JSON input''))) empty_DB)) = Some 400 \<and>
   written (resp (handle (main_Env (books_table example_num))
       (POST_books (Malformed (Error ''unexpected end of JSON input''))) empty_DB)) =
     [Text (''Bad Request'' @ [CHR 0x0A])] \<and>
   world (handle (main_Env (books_table example_num))
       (POST_books (Malformed (Error ''unexpected end of JSON input''))) empty_DB) = empty_DB \<and>
   issued empty_DB (world (handle (main_Env (books_table example_num))
       (POST_books (Malformed (Error ''unexpected end of JSON input''))) empty_DB)) = []"
proof -
  have h: "Decode (Malformed (Error ''unexpected end of JSON input'')) =
             Inl (Error ''unexpected end of JSON input'')"
    by simp
  show ?thesis
    by (rule createBook_undecodable [OF h])
qed

subsection \<open>The statements handed to the database\<close>

text \<open>What each method of the repository hands to the database, in order.\<close>

lemma issued_All:
  "issued s (snd (BookModel_All drv s)) =
     OpPrepare ''SELECT * FROM books'' #
       (if Prepare drv (conn s) ''SELECT * FROM books'' = None
        then [OpQuery ''SELECT * FROM books'' []] else [])"
  by (simp add: BookModel_All_def DB_Prepare_def DB_Query_def issued_def
      split: option.splits sum.splits prod.splits)

lemma issued_Get:
  "issued s (snd (BookModel_Get drv isbn s)) =
     OpPrepare ''SELECT * FROM books WHERE isbn=$1;'' #
       (if Prepare drv (conn s) ''SELECT * FROM books WHERE isbn=$1;'' = None
        then [OpQuery ''SELECT * FROM books WHERE isbn=$1;'' [ArgString isbn]] else [])"
  by (simp add: BookModel_Get_def DB_Prepare_def DB_Query_def issued_def
      split: option.splits sum.splits prod.splits)

lemma issued_Create:
  "issued s (snd (BookModel_Create drv bk s)) =
     OpPrepare ''INSERT INTO books (isbn, title, author, price) VALUES ($1, $2, $3, $4);'' #
       (if Prepare drv (conn s)
             ''INSERT INTO books (isbn, title, author, price) VALUES ($1, $2, $3, $4);'' = None
        then [OpExec ''INSERT INTO books (isbn, title, author, price) VALUES ($1, $2, $3, $4);''
                [ArgString (Isbn bk), ArgString (Title bk), ArgString (Author bk),
                 ArgFloat32 (Price bk)]]
        else [])"
  by (simp add: BookModel_Create_def DB_Prepare_def Stmt_Exec_def issued_def
      split: option.splits sum.splits prod.splits)

lemma texts_All:
  "map op_text (issued s (snd (BookModel_All drv s))) =
     (if Prepare drv (conn s) ''SELECT * FROM books'' = None
      then [''SELECT * FROM books'', ''SELECT * FROM books''] else [''SELECT * FROM books''])"
  by (simp add: issued_All)

lemma texts_Get:
  "map op_text (issued s (snd (BookModel_Get drv isbn s))) =
     (if Prepare drv (conn s) ''SELECT * FROM books WHERE isbn=$1;'' = None
      then [''SELECT * FROM books WHERE isbn=$1;'', ''SELECT * FROM books WHERE isbn=$1;'']
      else [''SELECT * FROM books WHERE isbn=$1;''])"
  by (simp add: issued_Get)

lemma texts_Create:
  "map op_text (issued s (snd (BookModel_Create drv bk s))) =
     (if Prepare drv (conn s)
           ''INSERT INTO books (isbn, title, author, price) VALUES ($1, $2, $3, $4);'' = None
      then [''INSERT INTO books (isbn, title, author, price) VALUES ($1, $2, $3, $4);'',
            ''INSERT INTO books (isbn, title, author, price) VALUES ($1, $2, $3, $4);'']
      else [''INSERT INTO books (isbn, title, author, price) VALUES ($1, $2, $3, $4);''])"
  by (simp add: issued_Create)

text \<open>
  Claim C8. Every statement text that \<^verbatim>\<open>All\<close>, \<^verbatim>\<open>Get\<close> and \<^verbatim>\<open>Create\<close> hand to
  the database (to \<^verbatim>\<open>Prepare\<close>, and with the prepared statement to \<^verbatim>\<open>Query\<close> and
  \<^verbatim>\<open>Exec\<close>) is one constant per method, for every database, state, isbn and book;
  two calls with different inputs hand over the same texts. The inputs appear only among
  the bound arguments (\<open>issued_Get\<close>, \<open>issued_Create\<close>).
\<close>

theorem statements_are_constants:
  "set (map op_text (issued s (snd (BookModel_All drv s)))) = {''SELECT * FROM books''} \<and>
   set (map op_text (issued s (snd (BookModel_Get drv isbn s)))) =
     {''SELECT * FROM books WHERE isbn=$1;''} \<and>
   set (map op_text (issued s (snd (BookModel_Create drv bk s)))) =
     {''INSERT INTO books (isbn, title, author, price) VALUES ($1, $2, $3, $4);''} \<and>
   map op_text (issued s (snd (BookModel_Get drv isbn s))) =
     map op_text (issued s (snd (BookModel_Get drv isbn' s))) \<and>
   map op_text (issued s (snd (BookModel_Create drv bk s))) =
     map op_text (issued s (snd (BookModel_Create drv bk' s)))"
proof (intro conjI)
  show "set (map op_text (issued s (snd (BookModel_All drv s)))) = {''SELECT * FROM books''}"
    unfolding texts_All by simp
  show "set (map op_text (issued s (snd (BookModel_Get drv isbn s)))) =
     {''SELECT * FROM books WHERE isbn=$1;''}"
    unfolding texts_Get by simp
  show "set (map op_text (issued s (snd (BookModel_Create drv bk s)))) =
     {''INSERT INTO books (isbn, title, author, price) VALUES ($1, $2, $3, $4);''}"
    unfolding texts_Create by simp
  show "map op_text (issued s (snd (BookModel_Get drv isbn s))) =
     map op_text (issued s (snd (BookModel_Get drv isbn' s)))"
    unfolding texts_Get by (rule refl)
  show "map op_text (issued s (snd (BookModel_Create drv bk s))) =
     map op_text (issued s (snd (BookModel_Create drv bk' s)))"
    unfolding texts_Create by (rule refl)
qed

subsection \<open>Decoding and the echo of POST /books\<close>

text \<open>A decoded book has a finite price: the zero value is finite, and only finite numbers are stored.\<close>

lemma store_field_finite:
  "store_field f v bk = Inr bk' \<Longrightarrow> float32_finite (Price bk) \<Longrightarrow> float32_finite (Price bk')"
  by (induction f v bk rule: store_field.induct) (auto split: if_splits)

lemma store_members_finite:
  "store_members ms bk saved = (bk', saved') \<Longrightarrow> float32_finite (Price bk) \<Longrightarrow>
   float32_finite (Price bk')"
proof (induction ms arbitrary: bk saved)
  case Nil
  then show ?case by simp
next
  case (Cons m ms)
  obtain key v where m: "m = (key, v)" by (cases m)
  show ?case
  proof (cases "field_named key")
    case None
    with Cons m show ?thesis by simp
  next
    case (Some f)
    show ?thesis
    proof (cases "store_field f v bk")
      case (Inl err)
      with Cons m Some show ?thesis by simp
    next
      case (Inr bk1)
      with Cons.prems(2) have "float32_finite (Price bk1)"
        by (simp add: store_field_finite)
      with Cons m Some Inr show ?thesis by simp
    qed
  qed
qed

lemma zero_Book_finite: "float32_finite (Price zero_Book)"
  by (simp add: zero_Book_def float32_finite_def)

lemma Decode_finite: "Decode b = Inr bk \<Longrightarrow> float32_finite (Price bk)"
proof (cases b)
  case (Malformed err)
  assume "Decode b = Inr bk"
  with Malformed show ?thesis by simp
next
  case (Doc j)
  assume d: "Decode b = Inr bk"
  show ?thesis
  proof (cases j)
    case JNull
    with d Doc show ?thesis by (simp add: zero_Book_finite)
  next
    case (JObject ms)
    obtain bk' saved where sm: "store_members ms zero_Book None = (bk', saved)"
      by (cases "store_members ms zero_Book None")
    with d Doc JObject have "bk' = bk" by (simp split: option.splits)
    with sm show ?thesis using store_members_finite zero_Book_finite by blast
  qed (use d Doc in simp_all)
qed

lemma BookModel_Create_frame: "snd (fst (BookModel_Create drv bk s)) = bk"
  by (simp add: BookModel_Create_def split: prod.splits option.splits)

text \<open>
  Claim C10. \<^verbatim>\<open>BookModel.Create\<close> leaves the book it is given as it was, for every
  database, and when a POST /books with the repository of \<^verbatim>\<open>main\<close> succeeds (the
  body decodes to a book and \<^verbatim>\<open>Create\<close> returns no error) the response is status
  200 with one JSON document: the object of the four fields of the decoded book.
\<close>

theorem createBook_echo:
  "snd (fst (BookModel_Create drv bk0 s0)) = bk0 \<and>
   (Decode b = Inr bk \<and> fst (fst (BookModel_Create drv bk s)) = None \<longrightarrow>
      status (resp (handle (main_Env drv) (POST_books b) s)) = Some 200 \<and>
      written (resp (handle (main_Env drv) (POST_books b) s)) =
        [JsonLine (JObject [(''ISBN'', JString (Isbn bk)), (''Title'', JString (Title bk)),
                            (''Author'', JString (Author bk)), (''Price'', JNumber (Price bk))])])"
proof (intro conjI impI)
  show "snd (fst (BookModel_Create drv bk0 s0)) = bk0"
    by (rule BookModel_Create_frame)
next
  assume a: "Decode b = Inr bk \<and> fst (fst (BookModel_Create drv bk s)) = None"
  then have fin: "float32_finite (Price bk)" using Decode_finite by blast
  obtain s1 where c: "BookModel_Create drv bk s = ((None, bk), s1)"
    using a BookModel_Create_frame [of drv bk s]
    by (cases "BookModel_Create drv bk s") (auto simp: prod_eq_iff)
  have r: "resp (handle (main_Env drv) (POST_books b) s) = snd (Encode (Inr (Book_object bk)) fresh)"
    using a c fin by (simp add: createBook_def main_Env_def Marshal_Book_def)
  show "status (resp (handle (main_Env drv) (POST_books b) s)) = Some 200"
    using r by (simp add: status_Encode_fresh)
  show "written (resp (handle (main_Env drv) (POST_books b) s)) =
        [JsonLine (JObject [(''ISBN'', JString (Isbn bk)), (''Title'', JString (Title bk)),
                            (''Author'', JString (Author bk)), (''Price'', JNumber (Price bk))])]"
    using r by (simp add: written_Encode_fresh Book_object_def)
qed


theorem createBook_echo_witness:
  "Decode Emma_body = Inr Emma \<and>
   fst (fst (BookModel_Create (books_table example_num) Emma empty_DB)) = None \<and>
   status (resp (handle (main_Env (books_table example_num)) (POST_books Emma_body) empty_DB)) =
     Some 200 \<and>
   written (resp (handle (main_Env (books_table example_num)) (POST_books Emma_body) empty_DB)) =
     [JsonLine (JObject [(''ISBN'', JString ''978-1503261969''), (''Title'', JString ''Emma''),
                         (''Author'', JString ''Jayne Austen''), (''Price'', JNumber 0x41170A3D)])]"
proof -
  have d: "Decode Emma_body = Inr Emma"
    by code_simp
  have c: "fst (fst (BookModel_Create (books_table example_num) Emma empty_DB)) = None"
    by code_simp
  show ?thesis
    using createBook_echo [of "books_table example_num" Emma empty_DB Emma_body Emma empty_DB] d c
    by (simp add: Emma_def)
qed

subsection \<open>When decoding succeeds\<close>

text \<open>
  Decoding a document succeeds exactly when it fits the Book type, and a field that no
  member of the object names keeps the value it had.
\<close>

lemma store_field_fits:
  "(\<exists>bk'. store_field f v bk = Inr bk') = value_fits f v"
  by (induction f v bk rule: store_field.induct) auto

lemma store_members_saved:
  "saved \<noteq> None \<Longrightarrow> snd (store_members ms bk saved) \<noteq> None"
  by (induction ms bk saved rule: store_members.induct)
     (auto split: option.splits sum.splits)

lemma store_members_fits:
  "(snd (store_members ms bk None) = None) = list_all member_fits ms"
proof (induction ms arbitrary: bk)
  case Nil
  then show ?case by simp
next
  case (Cons m ms)
  obtain key v where m: "m = (key, v)" by (cases m)
  show ?case
  proof (cases "field_named key")
    case None
    with Cons m show ?thesis by (simp add: member_fits_def)
  next
    case (Some f)
    show ?thesis
    proof (cases "store_field f v bk")
      case (Inl err)
      then have "\<not> value_fits f v"
        using store_field_fits [of f v bk] by auto
      moreover have "snd (store_members ms bk (Some err)) \<noteq> None"
        by (rule store_members_saved) simp
      ultimately show ?thesis using m Some Inl by (simp add: member_fits_def)
    next
      case (Inr bk1)
      then have "value_fits f v"
        using store_field_fits [of f v bk] by auto
      with Cons m Some Inr show ?thesis by (simp add: member_fits_def)
    qed
  qed
qed

lemma Decode_fits: "(\<exists>bk. Decode (Doc j) = Inr bk) = fits_Book j"
proof (cases j)
  case (JObject ms)
  obtain bk' saved where sm: "store_members ms zero_Book None = (bk', saved)"
    by (cases "store_members ms zero_Book None")
  with store_members_fits [of ms zero_Book] have "(saved = None) = list_all member_fits ms"
    by simp
  with sm JObject show ?thesis by (auto split: option.splits)
qed simp_all

lemma store_field_Isbn: "store_field f v bk = Inr bk' \<Longrightarrow> f \<noteq> F_Isbn \<Longrightarrow> Isbn bk' = Isbn bk"
  by (induction f v bk rule: store_field.induct) (auto split: if_splits)

lemma store_field_Title: "store_field f v bk = Inr bk' \<Longrightarrow> f \<noteq> F_Title \<Longrightarrow> Title bk' = Title bk"
  by (induction f v bk rule: store_field.induct) (auto split: if_splits)

lemma store_field_Author: "store_field f v bk = Inr bk' \<Longrightarrow> f \<noteq> F_Author \<Longrightarrow> Author bk' = Author bk"
  by (induction f v bk rule: store_field.induct) (auto split: if_splits)

lemma store_field_Price: "store_field f v bk = Inr bk' \<Longrightarrow> f \<noteq> F_Price \<Longrightarrow> Price bk' = Price bk"
  by (induction f v bk rule: store_field.induct) (auto split: if_splits)

lemma named_fields_Cons:
  "named_fields ((key, v) # ms) =
     (case field_named key of None \<Rightarrow> named_fields ms | Some f \<Rightarrow> insert f (named_fields ms))"
  by (auto simp: named_fields_def split: option.splits)

lemma store_members_unset:
  "(F_Isbn \<notin> named_fields ms \<longrightarrow> Isbn (fst (store_members ms bk saved)) = Isbn bk) \<and>
   (F_Title \<notin> named_fields ms \<longrightarrow> Title (fst (store_members ms bk saved)) = Title bk) \<and>
   (F_Author \<notin> named_fields ms \<longrightarrow> Author (fst (store_members ms bk saved)) = Author bk) \<and>
   (F_Price \<notin> named_fields ms \<longrightarrow> Price (fst (store_members ms bk saved)) = Price bk)"
proof (induction ms arbitrary: bk saved)
  case Nil
  then show ?case by simp
next
  case (Cons m ms)
  obtain key v where m: "m = (key, v)" by (cases m)
  show ?case
  proof (cases "field_named key")
    case None
    with Cons m show ?thesis by (simp add: named_fields_Cons)
  next
    case (Some f)
    show ?thesis
    proof (cases "store_field f v bk")
      case (Inl err)
      with Cons [of bk] m Some show ?thesis by (simp add: named_fields_Cons)
    next
      case (Inr bk1)
      have "Isbn (fst (store_members ms bk1 saved)) = Isbn bk1" if "F_Isbn \<notin> named_fields ms"
        using Cons [of bk1 saved] that by simp
      moreover have "Title (fst (store_members ms bk1 saved)) = Title bk1" if "F_Title \<notin> named_fields ms"
        using Cons [of bk1 saved] that by simp
      moreover have "Author (fst (store_members ms bk1 saved)) = Author bk1" if "F_Author \<notin> named_fields ms"
        using Cons [of bk1 saved] that by simp
      moreover have "Price (fst (store_members ms bk1 saved)) = Price bk1" if "F_Price \<notin> named_fields ms"
        using Cons [of bk1 saved] that by simp
      ultimately show ?thesis
        using m Some Inr store_field_Isbn [OF Inr] store_field_Title [OF Inr]
          store_field_Author [OF Inr] store_field_Price [OF Inr]
        by (auto simp: named_fields_Cons)
    qed
  qed
qed

lemma Decode_object_unset:
  assumes "Decode (Doc (JObject ms)) = Inr bk"
  shows "(F_Isbn \<notin> named_fields ms \<longrightarrow> Isbn bk = []) \<and>
         (F_Title \<notin> named_fields ms \<longrightarrow> Title bk = []) \<and>
         (F_Author \<notin> named_fields ms \<longrightarrow> Author bk = []) \<and>
         (F_Price \<notin> named_fields ms \<longrightarrow> Price bk = 0)"
proof -
  have "fst (store_members ms zero_Book None) = bk"
    using assms by (auto split: prod.splits option.splits)
  then show ?thesis
    using store_members_unset [of ms zero_Book None] by (simp add: zero_Book_def)
qed

lemma status_code_http_Error_fresh: "status_code (http_Error t c fresh) = c"
  by (simp add: status_code_def status_http_Error_fresh)

lemma status_code_Encode_fresh: "status_code (snd (Encode m fresh)) = 200"
  by (cases m) (simp_all add: status_code_def rw_defs)

lemma createBook_status_400:
  "(status_code (resp (createBook env b fresh s)) = 400) = (\<exists>err. Decode b = Inl err)"
proof (cases "Decode b")
  case (Inl err)
  then show ?thesis by (simp add: createBook_def status_code_http_Error_fresh)
next
  case (Inr bk)
  obtain r bk' s1 where c: "Create (books env) bk s = ((r, bk'), s1)"
    by (cases "Create (books env) bk s") auto
  show ?thesis
    using Inr c
    by (cases r) (simp_all add: createBook_def status_code_http_Error_fresh status_code_Encode_fresh)
qed

lemma createBook_world:
  "Decode b = Inr bk \<Longrightarrow> world (createBook env b w s) = snd (Create (books env) bk s)"
  by (simp add: createBook_def split: prod.splits option.splits)

text \<open>
  Claim C9, as amended. POST /books answers 400 exactly when the JSON value of the body
  does not fit the Book type: that includes syntactically valid bodies, those whose
  value is neither an object nor \<^verbatim>\<open>null\<close>, or in which a member that names a field
  holds a value of another type than the field's. For an object that fits, decoding
  succeeds, every field that no member names has its zero value (the empty string, the
  price 0), and the handler calls \<^verbatim>\<open>Create\<close> with the decoded book: the state it
  leaves is the state \<^verbatim>\<open>Create\<close> leaves, and with the repository of \<^verbatim>\<open>main\<close> the
  statements handed to the database are those of \<^verbatim>\<open>Create\<close> for that book.
\<close>

theorem createBook_decoding:
  "(status_code (resp (handle env (POST_books (Doc j)) s)) = 400) = (\<not> fits_Book j) \<and>
   (fits_Book (JObject ms) \<longrightarrow>
      (\<exists>bk. Decode (Doc (JObject ms)) = Inr bk \<and>
            (F_Isbn \<notin> named_fields ms \<longrightarrow> Isbn bk = []) \<and>
            (F_Title \<notin> named_fields ms \<longrightarrow> Title bk = []) \<and>
            (F_Author \<notin> named_fields ms \<longrightarrow> Author bk = []) \<and>
            (F_Price \<notin> named_fields ms \<longrightarrow> Price bk = 0) \<and>
            world (handle env (POST_books (Doc (JObject ms))) s) = snd (Create (books env) bk s) \<and>
            issued s0 (world (handle (main_Env drv) (POST_books (Doc (JObject ms))) s0)) =
              issued s0 (snd (BookModel_Create drv bk s0))))"
proof (intro conjI impI)
  have "(\<exists>err. Decode (Doc j) = Inl err) = (\<not> (\<exists>bk. Decode (Doc j) = Inr bk))"
    by (cases "Decode (Doc j)") auto
  then show "(status_code (resp (handle env (POST_books (Doc j)) s)) = 400) = (\<not> fits_Book j)"
    using createBook_status_400 [of env "Doc j" s] Decode_fits [of j] by auto
next
  assume "fits_Book (JObject ms)"
  then obtain bk where d: "Decode (Doc (JObject ms)) = Inr bk"
    using Decode_fits [of "JObject ms"] by blast
  have w: "world (handle env (POST_books (Doc (JObject ms))) s) = snd (Create (books env) bk s)"
    using createBook_world [OF d] by simp
  have i: "issued s0 (world (handle (main_Env drv) (POST_books (Doc (JObject ms))) s0)) =
              issued s0 (snd (BookModel_Create drv bk s0))"
    using createBook_world [OF d, of "main_Env drv" fresh s0] by (simp add: main_Env_def)
  show "\<exists>bk. Decode (Doc (JObject ms)) = Inr bk \<and>
            (F_Isbn \<notin> named_fields ms \<longrightarrow> Isbn bk = []) \<and>
            (F_Title \<notin> named_fields ms \<longrightarrow> Title bk = []) \<and>
            (F_Author \<notin> named_fields ms \<longrightarrow> Author bk = []) \<and>
            (F_Price \<notin> named_fields ms \<longrightarrow> Price bk = 0) \<and>
            world (handle env (POST_books (Doc (JObject ms))) s) = snd (Create (books env) bk s) \<and>
            issued s0 (world (handle (main_Env drv) (POST_books (Doc (JObject ms))) s0)) =
              issued s0 (snd (BookModel_Create drv bk s0))"
    using d w i Decode_object_unset [OF d] by blast
qed

theorem createBook_decoding_witness:
  "fits_Book (JObject [(''title'', JString ''X''), (''pages'', JNumber 0x3F800000)]) \<and>
   status_code (resp (handle (main_Env (books_table example_num))
      (POST_books (Doc (JObject [(''title'', JString ''X''), (''pages'', JNumber 0x3F800000)])))
      empty_DB)) \<noteq> 400 \<and>
   (\<exists>bk. Decode (Doc (JObject [(''title'', JString ''X''), (''pages'', JNumber 0x3F800000)])) =
           Inr bk \<and>
         Isbn bk = [] \<and> Author bk = [] \<and> Price bk = 0 \<and>
         world (handle (main_Env (books_table example_num))
           (POST_books (Doc (JObject [(''title'', JString ''X''), (''pages'', JNumber 0x3F800000)])))
           empty_DB) =
         snd (Create (books (main_Env (books_table example_num))) bk empty_DB))"
proof -
  have t: "field_named ''title'' = Some F_Title" and p: "field_named ''pages'' = None"
    by code_simp+
  have f: "fits_Book (JObject [(''title'', JString ''X''), (''pages'', JNumber 0x3F800000)])"
    by (simp add: member_fits_def t p)
  have n: "named_fields [(''title'', JString ''X''), (''pages'', JNumber 0x3F800000)] = {F_Title}"
    by (auto simp: named_fields_def t p)
  show ?thesis
    using createBook_decoding [of "main_Env (books_table example_num)"
        "JObject [(''title'', JString ''X''), (''pages'', JNumber 0x3F800000)]" empty_DB
        "[(''title'', JString ''X''), (''pages'', JNumber 0x3F800000)]" empty_DB
        "books_table example_num"] f n
    by auto
qed

text \<open>
  The claim as stated, that every syntactically valid JSON body is decoded and passed
  to \<^verbatim>\<open>Create\<close>, fails for the body \<^verbatim>\<open>{"Price":"cheap"}\<close>: the answer is 400 and
  no statement is handed to the database.
\<close>

theorem createBook_type_mismatch:
  "status (resp (handle (main_Env (books_table example_num))
      (POST_books (Doc (JObject [(''Price'', JString ''cheap'')]))) empty_DB)) = Some 400 \<and>
   issued empty_DB (world (handle (main_Env (books_table example_num))
      (POST_books (Doc (JObject [(''Price'', JString ''cheap'')]))) empty_DB)) = []"
proof -
  have "Decode (Doc (JObject [(''Price'', JString ''cheap'')])) =
          Inl (Error ''json: cannot unmarshal value into Go struct field'')"
    by code_simp
  then show ?thesis
    by (simp add: createBook_def issued_def status_http_Error_fresh)
qed

subsection \<open>GET /books\<close>

text \<open>
  The loop of \<^verbatim>\<open>All\<close> returns one book per row, in the order of the rows, and the
  nil slice exactly when there is no row.
\<close>

lemma Marshal_list_finite:
  "list_all (\<lambda>b. float32_finite (Price b)) bks \<Longrightarrow> Marshal_list bks = Inr (map Book_object bks)"
  by (induction bks) (simp_all add: Marshal_Book_def)

lemma All_loop_rows:
  "All_loop drv rws acc = Inr bks \<Longrightarrow>
   (\<exists>new. elems bks = elems acc @ new \<and>
          map (Scan_Book drv) rws = map (\<lambda>b. Inr (Isbn b, Title b, Author b, Price b)) new) \<and>
   ((bks = NilSlice) = (acc = NilSlice \<and> rws = []))"
proof (induction rws arbitrary: acc)
  case Nil
  then show ?case by simp
next
  case (Cons row rest)
  from Cons.prems obtain c1 c2 c3 c4 where
    sc: "Scan_Book drv row = Inr (c1, c2, c3, c4)" and
    lp: "All_loop drv rest (append_slice acc \<lparr>Isbn = c1, Title = c2, Author = c3, Price = c4\<rparr>) = Inr bks"
    by (auto split: sum.splits)
  let ?bk = "\<lparr>Isbn = c1, Title = c2, Author = c3, Price = c4\<rparr>"
  from Cons.IH [OF lp] obtain new where
    e: "elems bks = elems (append_slice acc ?bk) @ new" and
    m: "map (Scan_Book drv) rest = map (\<lambda>b. Inr (Isbn b, Title b, Author b, Price b)) new" and
    n: "(bks = NilSlice) = (append_slice acc ?bk = NilSlice \<and> rest = [])"
    by blast
  have ea: "elems (append_slice acc ?bk) = elems acc @ [?bk]"
    by (cases acc) simp_all
  have na: "append_slice acc ?bk \<noteq> NilSlice"
    by (cases acc) simp_all
  have "elems bks = elems acc @ (?bk # new)"
    using e ea by simp
  moreover have "map (Scan_Book drv) (row # rest) =
      map (\<lambda>b. Inr (Isbn b, Title b, Author b, Price b)) (?bk # new)"
    using sc m by simp
  ultimately show ?case using n na by blast
qed

lemma BookModel_All_Inr:
  assumes "BookModel_All drv s = (Inr bks, s')"
  shows "\<exists>rs. Query drv (conn s) ''SELECT * FROM books'' [] = Inr rs \<and>
              All_loop drv (rows rs) NilSlice = Inr bks"
  using assms
  by (auto simp: BookModel_All_def DB_Prepare_def DB_Query_def
      split: option.splits sum.splits prod.splits)

lemma Marshal_Books_finite:
  assumes "list_all (\<lambda>b. float32_finite (Price b)) (elems bks)"
  shows "Marshal_Books bks =
           Inr (case bks of NilSlice \<Rightarrow> JNull | Slice xs \<Rightarrow> JArray (map Book_object xs))"
  using assms by (cases bks) (simp_all add: Marshal_list_finite)

text \<open>
  Claim C3, as amended. When \<^verbatim>\<open>All\<close> succeeds and every price it read is finite,
  GET /books answers 200 with one JSON document. The books are the rows of the result
  in their order, each row scanned into one book. With at least one row the document
  is the array of the books' objects; with no row \<^verbatim>\<open>All\<close> returns the nil slice and
  the document is \<^verbatim>\<open>null\<close>.
\<close>

theorem booksIndex_success:
  assumes "BookModel_All drv s = (Inr bks, s')"
      and "list_all (\<lambda>b. float32_finite (Price b)) (elems bks)"
  shows "status (resp (handle (main_Env drv) GET_books s)) = Some 200 \<and>
         written (resp (handle (main_Env drv) GET_books s)) =
           [JsonLine (if elems bks = [] then JNull else JArray (map Book_object (elems bks)))] \<and>
         (\<exists>rs. Query drv (conn s) ''SELECT * FROM books'' [] = Inr rs \<and>
               map (Scan_Book drv) (rows rs) =
                 map (\<lambda>b. Inr (Isbn b, Title b, Author b, Price b)) (elems bks))"
proof -
  from BookModel_All_Inr [OF assms(1)] obtain rs where
    q: "Query drv (conn s) ''SELECT * FROM books'' [] = Inr rs" and
    lp: "All_loop drv (rows rs) NilSlice = Inr bks"
    by blast
  from All_loop_rows [OF lp] have
    m: "map (Scan_Book drv) (rows rs) =
          map (\<lambda>b. Inr (Isbn b, Title b, Author b, Price b)) (elems bks)" and
    n: "(bks = NilSlice) = (rows rs = [])"
    by auto
  have "(elems bks = []) = (rows rs = [])"
    using arg_cong [OF m, of length] by (cases "elems bks"; cases "rows rs") simp_all
  with n have j: "(case bks of NilSlice \<Rightarrow> JNull | Slice xs \<Rightarrow> JArray (map Book_object xs)) =
      (if elems bks = [] then JNull else JArray (map Book_object (elems bks)))"
    by (cases bks) auto
  have r: "resp (booksIndex (main_Env drv) fresh s) =
      snd (Encode (Inr (if elems bks = [] then JNull else JArray (map Book_object (elems bks)))) fresh)"
    using assms(1) Marshal_Books_finite [OF assms(2)] j
    by (simp add: booksIndex_def main_Env_def)
  have st: "status (resp (handle (main_Env drv) GET_books s)) = Some 200"
    using r by (simp add: status_Encode_fresh)
  have wr: "written (resp (handle (main_Env drv) GET_books s)) =
           [JsonLine (if elems bks = [] then JNull else JArray (map Book_object (elems bks)))]"
    using r by (simp only: handle.simps written_Encode_fresh)
  from q m have ex: "\<exists>rs. Query drv (conn s) ''SELECT * FROM books'' [] = Inr rs \<and>
               map (Scan_Book drv) (rows rs) =
                 map (\<lambda>b. Inr (Isbn b, Title b, Author b, Price b)) (elems bks)"
    by blast
  from st wr ex show ?thesis by (intro conjI)
qed

theorem booksIndex_success_witness:
  "fst (BookModel_All (books_table example_num) one_row_DB) =
     Inr (Slice [\<lparr>Isbn = ''978-1505255607'', Title = ''The Time Machine'',
                  Author = ''H. G. Wells'', Price = 0x40BFAE14\<rparr>]) \<and>
   status (resp (handle (main_Env (books_table example_num)) GET_books one_row_DB)) = Some 200 \<and>
   written (resp (handle (main_Env (books_table example_num)) GET_books one_row_DB)) =
     [JsonLine (JArray [JObject [(''ISBN'', JString ''978-1505255607''),
                                 (''Title'', JString ''The Time Machine''),
                                 (''Author'', JString ''H. G. Wells''),
                                 (''Price'', JNumber 0x40BFAE14)]])]"
proof -
  obtain s' where a: "BookModel_All (books_table example_num) one_row_DB =
     (Inr (Slice [\<lparr>Isbn = ''978-1505255607'', Title = ''The Time Machine'',
                  Author = ''H. G. Wells'', Price = 0x40BFAE14\<rparr>]), s')"
    by (simp add: BookModel_All_def DB_Prepare_def DB_Query_def books_table_def pg_Query_def
        one_row_DB_def)
  have f: "list_all (\<lambda>b. float32_finite (Price b))
     (elems (Slice [\<lparr>Isbn = ''978-1505255607'', Title = ''The Time Machine'',
                  Author = ''H. G. Wells'', Price = 0x40BFAE14\<rparr>]))"
    by (simp add: float32_finite_def)
  show ?thesis
    using booksIndex_success [OF a f] a by (simp add: Book_object_def)
qed

text \<open>
  The claim as stated, an empty JSON array for a table with no rows, fails on the empty
  table: the body is the document \<^verbatim>\<open>null\<close>.
\<close>

theorem booksIndex_empty_table:
  "fst (BookModel_All (books_table example_num) empty_DB) = Inr NilSlice \<and>
   status (resp (handle (main_Env (books_table example_num)) GET_books empty_DB)) = Some 200 \<and>
   written (resp (handle (main_Env (books_table example_num)) GET_books empty_DB)) =
     [JsonLine JNull] \<and>
   written (resp (handle (main_Env (books_table example_num)) GET_books empty_DB)) \<noteq>
     [JsonLine (JArray [])]"
  by (simp add: booksIndex_def main_Env_def BookModel_All_def DB_Prepare_def DB_Query_def
      books_table_def pg_Query_def empty_DB_def status_Encode_fresh written_Encode_fresh)

subsection \<open>GET /books/{isbn}\<close>

text \<open>
  Whatever error \<^verbatim>\<open>Get\<close> returns, the response is the same; a point query without
  rows makes \<^verbatim>\<open>Get\<close> fail; and in the books table the point query has no rows when
  no stored isbn compares equal to the one asked for.
\<close>

lemma bookByISBN_Get_error:
  "Get (books env) isbn s = (Inl err, s1) \<Longrightarrow>
   resp (bookByISBN env isbn fresh s) = http_Error (StatusText 500) 500 fresh"
  by (simp add: bookByISBN_def)

lemma BookModel_Get_no_rows:
  assumes "Query drv (conn s) ''SELECT * FROM books WHERE isbn=$1;'' [ArgString isbn] = Inr rs"
      and "rows rs = []"
  shows "\<exists>err. fst (BookModel_Get drv isbn s) = Inl err"
  using assms
  by (auto simp: BookModel_Get_def DB_Prepare_def DB_Query_def Row_Scan_def
      split: option.splits sum.splits prod.splits)

lemma pg_Query_absent:
  "list_all (\<lambda>r. rstrip (fst r) \<noteq> rstrip isbn) tbl \<Longrightarrow>
   Query (books_table num) tbl ''SELECT * FROM books WHERE isbn=$1;'' [ArgString isbn] =
     Inr \<lparr>rows = [], rows_Err = None, rows_Close = None\<rparr>"
  by (simp add: books_table_def pg_Query_def list_all_iff filter_empty_conv)

text \<open>
  Claim C5. When the point query for an isbn returns no row (the isbn is not in the
  table), \<^verbatim>\<open>Get\<close> fails and GET /books/{isbn} answers 500 with the status text, not
  200 with an empty or null document; and the response is the one that every other
  failure of \<^verbatim>\<open>Get\<close>, in any implementation, is answered with.
\<close>

theorem bookByISBN_not_found:
  assumes "Query drv (conn s) ''SELECT * FROM books WHERE isbn=$1;'' [ArgString isbn] = Inr rs"
      and "rows rs = []"
  shows "(\<exists>err. fst (BookModel_Get drv isbn s) = Inl err) \<and>
         status (resp (handle (main_Env drv) (GET_books_isbn isbn) s)) = Some 500 \<and>
         written (resp (handle (main_Env drv) (GET_books_isbn isbn) s)) =
           [Text (''Internal Server Error'' @ [CHR 0x0A])] \<and>
         (\<forall>env' isbn' s0 err s1. Get (books env') isbn' s0 = (Inl err, s1) \<longrightarrow>
            resp (handle env' (GET_books_isbn isbn') s0) =
            resp (handle (main_Env drv) (GET_books_isbn isbn) s))"
proof -
  from BookModel_Get_no_rows [OF assms] obtain err s1 where
    g: "BookModel_Get drv isbn s = (Inl err, s1)"
    by (cases "BookModel_Get drv isbn s") auto
  then have g': "Get (books (main_Env drv)) isbn s = (Inl err, s1)"
    by (simp add: main_Env_def)
  have r: "resp (handle (main_Env drv) (GET_books_isbn isbn) s) =
      http_Error (StatusText 500) 500 fresh"
    using bookByISBN_Get_error [OF g'] by simp
  have e: "\<exists>err. fst (BookModel_Get drv isbn s) = Inl err"
    using g by simp
  have st: "status (resp (handle (main_Env drv) (GET_books_isbn isbn) s)) = Some 500"
    by (simp only: r status_http_Error_fresh)
  have wr: "written (resp (handle (main_Env drv) (GET_books_isbn isbn) s)) =
           [Text (''Internal Server Error'' @ [CHR 0x0A])]"
    by (simp only: r written_http_Error_fresh) (simp add: StatusText_def)
  have same: "\<forall>env' isbn' s0 err s1. Get (books env') isbn' s0 = (Inl err, s1) \<longrightarrow>
            resp (handle env' (GET_books_isbn isbn') s0) =
            resp (handle (main_Env drv) (GET_books_isbn isbn) s)"
  proof -
    have r': "resp (bookByISBN (main_Env drv) isbn fresh s) = http_Error (StatusText 500) 500 fresh"
      using r by simp
    show ?thesis
      by (simp add: r' bookByISBN_Get_error)
  qed
  from e st wr same show ?thesis by (intro conjI)
qed

theorem bookByISBN_not_found_witness:
  "list_all (\<lambda>r. rstrip (fst r) \<noteq> rstrip ''978-1503261969'') (conn one_row_DB) \<and>
   (\<exists>err. fst (BookModel_Get (books_table example_num) ''978-1503261969'' one_row_DB) = Inl err) \<and>
   status (resp (handle (main_Env (books_table example_num))
      (GET_books_isbn ''978-1503261969'') one_row_DB)) = Some 500 \<and>
   written (resp (handle (main_Env (books_table example_num))
      (GET_books_isbn ''978-1503261969'') one_row_DB)) =
     [Text (''Internal Server Error'' @ [CHR 0x0A])]"
proof -
  have a: "list_all (\<lambda>r. rstrip (fst r) \<noteq> rstrip ''978-1503261969'') (conn one_row_DB)"
    by (simp add: one_row_DB_def rstrip_def)
  have e: "rows \<lparr>rows = ([] :: pgrow list), rows_Err = None, rows_Close = None\<rparr> = []"
    by simp
  show ?thesis
    using bookByISBN_not_found [OF pg_Query_absent [OF a] e] a by blast
qed

subsection \<open>Create, then Get\<close>

text \<open>
  The string columns: a value of \<open>n\<close> characters is stored in \<^verbatim>\<open>char(n)\<close> as it is,
  and a value of at most \<open>n\<close> characters in \<^verbatim>\<open>varchar(n)\<close>.
\<close>

lemma takeWhile_eq_replicate:
  "takeWhile (\<lambda>c. c = a) xs = replicate (length (takeWhile (\<lambda>c. c = a) xs)) a"
  by (induction xs) simp_all

lemma rstrip_spaces:
  "\<exists>k. s = rstrip s @ replicate k (CHR '' '')"
proof -
  let ?P = "\<lambda>c. c = CHR '' ''"
  have "rev s = takeWhile ?P (rev s) @ dropWhile ?P (rev s)"
    by simp
  then have "s = rev (dropWhile ?P (rev s)) @ rev (takeWhile ?P (rev s))"
    by (metis rev_append rev_rev_ident)
  moreover have "rev (takeWhile ?P (rev s)) = replicate (length (takeWhile ?P (rev s))) (CHR '' '')"
    using takeWhile_eq_replicate [of "CHR '' ''" "rev s"] by (metis rev_replicate)
  ultimately show ?thesis
    unfolding rstrip_def by metis
qed

lemma char_length_append: "char_length (xs @ ys) = char_length xs + char_length ys"
  by (simp add: char_length_def)

lemma char_length_spaces: "char_length (replicate k (CHR '' '')) = k"
  by (induction k) (simp_all add: char_length_def)

lemma bpchar_fixed: "char_length s = n \<Longrightarrow> bpchar n s = Some s"
proof -
  assume n: "char_length s = n"
  obtain k where k: "s = rstrip s @ replicate k (CHR '' '')"
    using rstrip_spaces by blast
  have "char_length s = char_length (rstrip s) + k"
    using arg_cong [OF k, of char_length] by (simp add: char_length_append char_length_spaces)
  with n have "char_length (rstrip s) \<le> n" and "n - char_length (rstrip s) = k"
    by simp_all
  with k show ?thesis by (simp add: bpchar_def)
qed

lemma varchar_fits: "char_length s \<le> n \<Longrightarrow> varchar n s = Some s"
  by (simp add: varchar_def)

text \<open>
  The price column. Rounding to the nearest integer errs by at most a half, and the
  scaling found by \<open>binade\<close> is the least one that leaves a mantissa of 24 bits.
\<close>

lemma rhe_cases:
  assumes "0 < den"
  shows "round_half_even num den = num div den \<and> 2 * (num mod den) \<le> den \<or>
         round_half_even num den = num div den + 1 \<and> den \<le> 2 * (num mod den)"
  by (auto simp: round_half_even_def Let_def)

lemma rhe_error:
  assumes "0 < den"
  shows "2 * \<bar>round_half_even num den * den - num\<bar> \<le> den"
proof -
  have d: "num = den * (num div den) + num mod den" by simp
  have r: "0 \<le> num mod den" "num mod den < den" using assms by simp_all
  from rhe_cases [OF assms, of num] show ?thesis
  proof
    assume a: "round_half_even num den = num div den \<and> 2 * (num mod den) \<le> den"
    then have "round_half_even num den * den - num = - (num mod den)"
      using d by (simp add: algebra_simps)
    with a r show ?thesis by simp
  next
    assume a: "round_half_even num den = num div den + 1 \<and> den \<le> 2 * (num mod den)"
    then have "round_half_even num den * den - num = den - num mod den"
      using d by (simp add: algebra_simps)
    with a r show ?thesis by simp
  qed
qed

lemma div_lower:
  fixes num den c :: int
  assumes "0 < den" "c * den \<le> num"
  shows "c \<le> num div den"
proof -
  have "num < den * (num div den + 1)"
    using assms(1) by (metis add.commute int_distrib(2) mult.commute mult.right_neutral
        pos_mod_bound mult_div_mod_eq add_strict_left_mono)
  with assms(2) have "c * den < (num div den + 1) * den"
    by (simp add: mult.commute)
  with assms(1) have "c < num div den + 1"
    by (simp add: mult_less_cancel_right)
  then show ?thesis by simp
qed

lemma div_upper:
  fixes num den c :: int
  assumes "0 < den" "num < c * den"
  shows "num div den < c"
proof -
  have "den * (num div den) \<le> num"
    using assms(1) by (metis mult_div_mod_eq pos_mod_sign le_add_same_cancel1)
  with assms(2) have "(num div den) * den < c * den"
    by (simp add: mult.commute)
  with assms(1) show ?thesis
    by (simp add: mult_less_cancel_right)
qed

lemma rhe_lower:
  assumes "0 < den" "c * den \<le> num"
  shows "c \<le> round_half_even num den"
  using div_lower [OF assms] rhe_cases [OF assms(1), of num] by auto

lemma rhe_upper:
  assumes "0 < den" "num < c * den"
  shows "round_half_even num den \<le> c"
  using div_upper [OF assms] rhe_cases [OF assms(1), of num] by auto

lemma binade_le: "binade n num den \<le> n"
  by (induction n arbitrary: den) simp_all

lemma binade_bound:
  "0 < den \<Longrightarrow> num < 2 ^ 24 * den * 2 ^ j \<Longrightarrow> j \<le> n \<Longrightarrow> binade n num den \<le> j"
proof (induction n arbitrary: den j)
  case 0
  then show ?case by simp
next
  case (Suc n)
  show ?case
  proof (cases "num < 2 ^ 24 * den")
    case True
    then show ?thesis by simp
  next
    case False
    with Suc.prems(2) have "j \<noteq> 0" by (cases j) auto
    then obtain j' where j: "j = Suc j'" by (cases j) auto
    have "0 < 2 * den" using Suc.prems(1) by simp
    moreover have "num < 2 ^ 24 * (2 * den) * 2 ^ j'"
      using Suc.prems(2) j by (simp add: algebra_simps)
    moreover have "j' \<le> n" using Suc.prems(3) j by simp
    ultimately have "binade n num (2 * den) \<le> j'" by (rule Suc.IH)
    with False j show ?thesis by simp
  qed
qed

lemma binade_upper:
  "binade n num den < n \<Longrightarrow> num < 2 ^ 24 * den * 2 ^ binade n num den"
proof (induction n arbitrary: den)
  case 0
  then show ?case by simp
next
  case (Suc n)
  show ?case
  proof (cases "num < 2 ^ 24 * den")
    case True
    then show ?thesis by simp
  next
    case False
    with Suc.prems have "binade n num (2 * den) < n" by simp
    from Suc.IH [OF this] False show ?thesis by (simp add: algebra_simps)
  qed
qed

lemma binade_lower:
  "0 < binade n num den \<Longrightarrow> 2 ^ 23 * den * 2 ^ binade n num den \<le> num"
proof (induction n arbitrary: den)
  case 0
  then show ?case by simp
next
  case (Suc n)
  note IH = Suc.IH
  show ?case
  proof (cases "num < 2 ^ 24 * den")
    case True
    with Suc.prems show ?thesis by simp
  next
    case False
    show ?thesis
    proof (cases "binade n num (2 * den) = 0")
      case True
      with False show ?thesis by simp
    next
      case nz: False
      then have "0 < binade n num (2 * den)" by simp
      from IH [OF this] False show ?thesis by (simp add: algebra_simps)
    qed
  qed
qed

text \<open>
  The fields of a bit pattern: an exponent field \<open>E\<close> and a mantissa \<open>M\<close> in range give
  a float32 that is finite unless \<open>E\<close> is 255, with the value the fields denote.
\<close>

lemma float32_finite_uint: "float32_finite f = (uint f div 2 ^ 23 mod 256 \<noteq> 255)"
proof -
  have m: "(255 :: 32 word) = mask 8"
    by (simp add: mask_eq_exp_minus_1)
  have "uint (drop_bit 23 f AND mask 8) = uint f div 2 ^ 23 mod 256"
    by (simp add: take_bit_eq_mask [symmetric] take_bit_eq_mod drop_bit_eq_div
        uint_div uint_mod)
  moreover have "(drop_bit 23 f AND mask 8 = (255 :: 32 word)) =
      (uint (drop_bit 23 f AND mask 8) = uint (255 :: 32 word))"
    by (simp only: word_uint_eq_iff)
  ultimately show ?thesis
    by (simp add: float32_finite_def m [symmetric])
qed

lemma uint_small:
  "0 \<le> k \<Longrightarrow> k < 2 ^ 32 \<Longrightarrow> uint (word_of_int k :: 32 word) = k"
  by (simp add: uint_word_of_int)

lemma fields_bounds:
  fixes E M :: int
  assumes "0 \<le> M" "M < 2 ^ 23" "0 \<le> E" "E < 256"
  shows "0 \<le> E * 2 ^ 23 + M" and "E * 2 ^ 23 + M < 2 ^ 31"
proof -
  show "0 \<le> E * 2 ^ 23 + M" using assms by simp
  have "E * 2 ^ 23 \<le> 255 * 2 ^ 23" using assms by simp
  with assms(2) show "E * 2 ^ 23 + M < 2 ^ 31" by simp
qed

lemma fields_div_mod:
  fixes E M :: int
  assumes "0 \<le> M" "M < 2 ^ 23" "0 \<le> E" "E < 256"
  shows "(E * 2 ^ 23 + M) mod 2 ^ 23 = M"
    and "(E * 2 ^ 23 + M) div 2 ^ 23 = E"
    and "(E * 2 ^ 23 + M) div 2 ^ 31 = 0"
proof -
  show "(E * 2 ^ 23 + M) mod 2 ^ 23 = M" using assms by simp
  show "(E * 2 ^ 23 + M) div 2 ^ 23 = E" using assms by simp
  from fields_bounds [OF assms] show "(E * 2 ^ 23 + M) div 2 ^ 31 = 0" by simp
qed

lemma float32_of_uint:
  fixes E M :: int
  assumes "uint f = E * 2 ^ 23 + M" "0 \<le> M" "M < 2 ^ 23" "0 \<le> E" "E < 256"
  shows "float32_units f = (if E = 0 then M else (2 ^ 23 + M) * 2 ^ nat (E - 1))"
    and "float32_finite f = (E \<noteq> 255)"
proof -
  note dm = fields_div_mod [OF assms(2-5)]
  have e: "uint f div 2 ^ 23 mod 256 = E"
    unfolding assms(1) dm(2) using assms(4,5) by simp
  show "float32_units f = (if E = 0 then M else (2 ^ 23 + M) * 2 ^ nat (E - 1))"
    unfolding float32_units_def Let_def e unfolding assms(1) dm by simp
  show "float32_finite f = (E \<noteq> 255)"
    unfolding float32_finite_uint e by simp
qed

lemma float32_fields:
  fixes E M :: int
  assumes "0 \<le> M" "M < 2 ^ 23" "0 \<le> E" "E < 256"
  shows "float32_units (word_of_int (E * 2 ^ 23 + M)) =
           (if E = 0 then M else (2 ^ 23 + M) * 2 ^ nat (E - 1))"
    and "float32_finite (word_of_int (E * 2 ^ 23 + M)) = (E \<noteq> 255)"
proof -
  from fields_bounds [OF assms] have "0 \<le> E * 2 ^ 23 + M" "E * 2 ^ 23 + M < 2 ^ 32"
    by simp_all
  then have u: "uint (word_of_int (E * 2 ^ 23 + M) :: 32 word) = E * 2 ^ 23 + M"
    by (rule uint_small)
  from float32_of_uint [OF u assms]
  show "float32_units (word_of_int (E * 2 ^ 23 + M)) =
           (if E = 0 then M else (2 ^ 23 + M) * 2 ^ nat (E - 1))"
    and "float32_finite (word_of_int (E * 2 ^ 23 + M)) = (E \<noteq> 255)"
    by blast+
qed

lemma float32_of_bits:
  fixes E M :: int
  assumes "k = E * 2 ^ 23 + M" "0 \<le> M" "M < 2 ^ 23" "0 \<le> E" "E < 255"
  shows "float32_finite (word_of_int k) \<and>
         float32_units (word_of_int k) = (if E = 0 then M else (2 ^ 23 + M) * 2 ^ nat (E - 1))"
proof -
  have E: "E < 256" "E \<noteq> 255" using assms(5) by simp_all
  from float32_fields [OF assms(2,3,4) E(1)] E(2) show ?thesis
    unfolding assms(1) by blast
qed

text \<open>
  \<^verbatim>\<open>ParseFloat\<close> of a decimal within the range returns a finite float32 whose value
  is the rounded mantissa at the scaling found, so within half a unit of that scaling
  of the decimal.
\<close>

lemma ParseFloat32_pos_nearest:
  assumes "0 \<le> a" "0 < b" "a * 2 ^ 149 < 2 ^ 24 * b * 2 ^ j" "j \<le> 252"
  defines "t \<equiv> binade 254 (a * 2 ^ 149) b"
  defines "m \<equiv> round_half_even (a * 2 ^ 149) (b * 2 ^ t)"
  shows "float32_finite (word_of_int (ParseFloat32_pos a b)) \<and>
         float32_units (word_of_int (ParseFloat32_pos a b)) = m * 2 ^ t \<and>
         t \<le> j \<and> 2 * \<bar>m * (b * 2 ^ t) - a * 2 ^ 149\<bar> \<le> b * 2 ^ t"
proof -
  have tj: "t \<le> j"
    unfolding t_def using assms(2,3,4) by (intro binade_bound) simp_all
  then have t254: "t < 254" using assms(4) by simp
  have den: "0 < b * 2 ^ t" using assms(2) by simp
  have up: "a * 2 ^ 149 < 2 ^ 24 * (b * 2 ^ t)"
    using binade_upper [of 254 "a * 2 ^ 149" b] t254 by (simp add: t_def mult.assoc)
  have m24: "m \<le> 2 ^ 24"
    unfolding m_def using den up by (rule rhe_upper)
  have m0: "0 \<le> m"
    unfolding m_def using den assms(1) by (intro rhe_lower) simp_all
  have m23: "2 ^ 23 \<le> m" if "0 < t"
  proof -
    have "2 ^ 23 * (b * 2 ^ t) \<le> a * 2 ^ 149"
      using binade_lower [of 254 "a * 2 ^ 149" b] that by (simp add: t_def mult.assoc)
    with den show ?thesis unfolding m_def by (intro rhe_lower)
  qed
  have err: "2 * \<bar>m * (b * 2 ^ t) - a * 2 ^ 149\<bar> \<le> b * 2 ^ t"
    unfolding m_def using den by (rule rhe_error)
  have P: "ParseFloat32_pos a b =
      (if m = 2 ^ 24 then (int t + 2) * 2 ^ 23 + 0
       else if m < 2 ^ 23 then 0 * 2 ^ 23 + m
       else (int t + 1) * 2 ^ 23 + (m - 2 ^ 23))"
  proof -
    have t252: "t \<le> 252" using tj assms(4) by simp
    have "ParseFloat32_pos a b =
        (let (m', t') = (if m = 2 ^ 24 then (2 ^ 23, t + 1) else (m, t))
         in if m' < 2 ^ 23 then m'
            else if 254 \<le> t' then 255 * 2 ^ 23
            else (int t' + 1) * 2 ^ 23 + (m' - 2 ^ 23))"
      unfolding ParseFloat32_pos_def Let_def m_def t_def ..
    also have "\<dots> = (if m = 2 ^ 24 then (int t + 2) * 2 ^ 23 + 0
       else if m < 2 ^ 23 then 0 * 2 ^ 23 + m
       else (int t + 1) * 2 ^ 23 + (m - 2 ^ 23))"
      using t252 by (simp add: Let_def)
    finally show ?thesis .
  qed
  have "float32_finite (word_of_int (ParseFloat32_pos a b)) \<and>
        float32_units (word_of_int (ParseFloat32_pos a b)) = m * 2 ^ t"
  proof (cases "m = 2 ^ 24")
    case True
    have k: "ParseFloat32_pos a b = (int t + 2) * 2 ^ 23 + 0"
      using P True by simp
    have "nat (int t + 2 - 1) = Suc t" by simp
    moreover have "t < 253" using tj assms(4) by simp
    ultimately show ?thesis using float32_of_bits [OF k] True by simp
  next
    case False
    show ?thesis
    proof (cases "m < 2 ^ 23")
      case True
      with m23 have t0: "t = 0" by (cases t) auto
      have k: "ParseFloat32_pos a b = 0 * 2 ^ 23 + m"
        using P True False by simp
      from float32_of_bits [OF k] m0 True t0 show ?thesis by simp
    next
      case ge: False
      have k: "ParseFloat32_pos a b = (int t + 1) * 2 ^ 23 + (m - 2 ^ 23)"
        using P ge False by simp
      have M: "0 \<le> m - 2 ^ 23" "m - 2 ^ 23 < 2 ^ 23" using ge m24 False by simp_all
      have E: "0 \<le> int t + 1" "int t + 1 < 255" using t254 by simp_all
      from float32_of_bits [OF k M E] show ?thesis by simp
    qed
  qed
  with tj err show ?thesis by simp
qed

text \<open>
  The float32 of a decimal with two places below 1000 is within \<open>2 ^ -15\<close> of it. So
  every decimal within \<open>2 ^ -30\<close> of that float32, the exact value and the shortest
  decimal the driver sends among them, rounds to the hundredths it came from, and the
  column returns a valid price unchanged.
\<close>

lemma two_decimals_nearest:
  assumes "0 \<le> k" "k < 100000"
  shows "float32_finite (ParseFloat32 k 100) \<and>
         \<bar>100 * float32_units (ParseFloat32 k 100) - k * 2 ^ 149\<bar> \<le> 50 * 2 ^ 135"
proof -
  define t where "t = binade 254 (k * 2 ^ 149) 100"
  define m where "m = round_half_even (k * 2 ^ 149) (100 * 2 ^ t)"
  have "k * 2 ^ 149 < 102400 * 2 ^ 149"
    using assms(2) by simp
  also have "(102400 :: int) * 2 ^ 149 = 2 ^ 24 * 100 * 2 ^ 135"
    by simp
  finally have b: "k * 2 ^ 149 < 2 ^ 24 * 100 * 2 ^ 135" .
  from ParseFloat32_pos_nearest [OF assms(1) _ b, folded t_def m_def]
  have f: "float32_finite (word_of_int (ParseFloat32_pos k 100))" and
    u: "float32_units (word_of_int (ParseFloat32_pos k 100)) = m * 2 ^ t" and
    t: "t \<le> 135" and
    e: "2 * \<bar>m * (100 * 2 ^ t) - k * 2 ^ 149\<bar> \<le> 100 * 2 ^ t"
    by simp_all
  have p: "ParseFloat32 k 100 = word_of_int (ParseFloat32_pos k 100)"
    using assms(1) by (simp add: ParseFloat32_def)
  have "(2 :: int) ^ t \<le> 2 ^ 135"
    using t by (intro power_increasing) simp_all
  with e have "2 * \<bar>m * (100 * 2 ^ t) - k * 2 ^ 149\<bar> \<le> 100 * 2 ^ 135"
    by linarith
  moreover have "100 * float32_units (ParseFloat32 k 100) = m * (100 * 2 ^ t)"
    unfolding p u by simp
  ultimately have "\<bar>100 * float32_units (ParseFloat32 k 100) - k * 2 ^ 149\<bar> \<le> 50 * 2 ^ 135"
    by simp
  with f p show ?thesis by simp
qed

lemma round_half_away_eq:
  assumes "0 \<le> k" "0 < b" "2 * \<bar>n - k * b\<bar> < b"
  shows "round_half_away n b = k"
proof -
  define d where "d = n - k * b"
  have n: "n = k * b + d" by (simp add: d_def)
  have d: "- b < 2 * d" "2 * d < b"
    using assms(3) unfolding d_def [symmetric] by linarith+
  show ?thesis
  proof (cases "0 \<le> n")
    case True
    have "k * (2 * b) \<le> 2 * n + b"
      unfolding n using d by (simp add: algebra_simps)
    then have l: "k \<le> (2 * n + b) div (2 * b)"
      using assms(2) by (intro div_lower) simp_all
    have "2 * n + b < (k + 1) * (2 * b)"
      unfolding n using d by (simp add: algebra_simps)
    then have "(2 * n + b) div (2 * b) < k + 1"
      using assms(2) by (intro div_upper) simp_all
    with l True show ?thesis by (simp add: round_half_away_def)
  next
    case False
    have kb: "0 \<le> k * b" using assms(1,2) by simp
    with False n d have "2 * (k * b) < 1 * b" by linarith
    then have "(2 * k) * b < 1 * b" by (simp add: mult.assoc)
    then have "2 * k < 1"
      using assms(2) by (simp add: mult_less_cancel_right)
    with assms(1) have k0: "k = 0" by simp
    with n d False have "2 * (- n) + b < 1 * (2 * b)" "0 * (2 * b) \<le> 2 * (- n) + b"
      by simp_all
    then have "(2 * (- n) + b) div (2 * b) < 1" "0 \<le> (2 * (- n) + b) div (2 * b)"
      using assms(2) by (auto intro!: div_upper div_lower)
    with k0 False show ?thesis by (simp add: round_half_away_def)
  qed
qed

lemma scaled_error:
  fixes a b k u P e1 e2 :: int
  assumes "0 < b" "\<bar>a * P - u * b\<bar> \<le> b * e1" "\<bar>100 * u - k * P\<bar> \<le> e2"
  shows "\<bar>100 * a - k * b\<bar> * \<bar>P\<bar> \<le> b * (100 * e1 + e2)"
proof -
  have "(100 * a - k * b) * P = 100 * (a * P - u * b) + b * (100 * u - k * P)"
    by (simp add: algebra_simps)
  then have "\<bar>100 * a - k * b\<bar> * \<bar>P\<bar> = \<bar>100 * (a * P - u * b) + b * (100 * u - k * P)\<bar>"
    by (simp only: abs_mult [symmetric])
  also have "\<dots> \<le> \<bar>100 * (a * P - u * b)\<bar> + \<bar>b * (100 * u - k * P)\<bar>"
    by (rule abs_triangle_ineq)
  also have "\<dots> = 100 * \<bar>a * P - u * b\<bar> + b * \<bar>100 * u - k * P\<bar>"
    by (simp only: abs_mult abs_numeral abs_of_pos [OF assms(1)])
  also have "\<dots> \<le> 100 * (b * e1) + b * e2"
    using assms by (intro add_mono mult_left_mono) simp_all
  also have "\<dots> = b * (100 * e1 + e2)"
    by (simp add: algebra_simps)
  finally show ?thesis .
qed

lemma column_rounding:
  assumes "0 \<le> k" "k < 100000" "0 < b"
      and "\<bar>a * 2 ^ 149 - float32_units (ParseFloat32 k 100) * b\<bar> \<le> b * 2 ^ 119"
  shows "round_half_away (100 * a) b = k"
proof -
  from two_decimals_nearest [OF assms(1,2)]
  have n: "\<bar>100 * float32_units (ParseFloat32 k 100) - k * 2 ^ 149\<bar> \<le> 50 * 2 ^ 135"
    by simp
  from scaled_error [OF assms(3,4) n]
  have "\<bar>100 * a - k * b\<bar> * 2 ^ 149 \<le> b * (100 * 2 ^ 119 + 50 * 2 ^ 135)"
    by simp
  also have "\<dots> < b * 2 ^ 148"
    using assms(3) by (intro mult_strict_left_mono) simp_all
  finally have "(2 * \<bar>100 * a - k * b\<bar>) * 2 ^ 148 < b * 2 ^ 148"
    by simp
  then have "2 * \<bar>100 * a - k * b\<bar> < b"
    by (simp add: mult_less_cancel_right)
  with assms(1,3) show ?thesis by (intro round_half_away_eq)
qed

lemma decimal52_valid:
  assumes "valid_price p"
  shows "decimal52 p = Some p"
proof -
  from assms obtain k where k: "0 \<le> k" "k < 100000" and p: "p = ParseFloat32 k 100"
    by (auto simp: valid_price_def)
  have "round_half_away (100 * float32_units p) (2 ^ 149) = k"
    unfolding p using k by (intro column_rounding) simp_all
  moreover have "float32_finite p"
    unfolding p using two_decimals_nearest [OF k] by simp
  ultimately show ?thesis
    using k p by (simp add: decimal52_def numeric_of_float32_def)
qed

lemma example_num_decimal52: "example_num p = Some q \<Longrightarrow> decimal52 p = Some q"
proof -
  have "decimal52 0x41170A3D = Some 0x41170A3D" "decimal52 0x40BFAE14 = Some 0x40BFAE14"
    "decimal52 0 = Some 0"
    by code_simp+
  then show "example_num p = Some q \<Longrightarrow> decimal52 p = Some q"
    by (auto simp: example_num_def split: if_splits)
qed

text \<open>
  The insert of a book whose four values the columns hold as they are either meets a row
  with an equal isbn or appends the four values, and the point query after it finds
  that row alone.
\<close>

lemma pg_insert_fits:
  assumes "char_length (Isbn bk) = 14" "char_length (Title bk) \<le> 255"
      and "char_length (Author bk) \<le> 255" "num (Price bk) = Some (Price bk)"
  shows "pg_insert num tbl [ArgString (Isbn bk), ArgString (Title bk), ArgString (Author bk),
                            ArgFloat32 (Price bk)] =
           (if rstrip (Isbn bk) \<in> (\<lambda>r. rstrip (fst r)) ` set tbl
            then Inl (Error ''pq: duplicate key value violates unique constraint books_pkey'')
            else Inr (tbl @ [(Isbn bk, Title bk, Author bk, Price bk)]))"
  using assms by (simp add: bpchar_fixed varchar_fits)

lemma Create_fits_success:
  assumes "char_length (Isbn bk) = 14" "char_length (Title bk) \<le> 255"
      and "char_length (Author bk) \<le> 255" "num (Price bk) = Some (Price bk)"
      and "fst (fst (BookModel_Create (books_table num) bk s)) = None"
  shows "conn (snd (BookModel_Create (books_table num) bk s)) =
           conn s @ [(Isbn bk, Title bk, Author bk, Price bk)] \<and>
         rstrip (Isbn bk) \<notin> (\<lambda>r. rstrip (fst r)) ` set (conn s)"
proof (cases "rstrip (Isbn bk) \<in> (\<lambda>r. rstrip (fst r)) ` set (conn s)")
  case True
  with assms(5) show ?thesis
    by (simp add: BookModel_Create_def DB_Prepare_def Stmt_Exec_def books_table_def pg_Exec_def
        pg_insert_fits [of bk num, OF assms(1-4)] del: pg_insert.simps)
next
  case False
  then show ?thesis
    by (simp add: BookModel_Create_def DB_Prepare_def Stmt_Exec_def books_table_def pg_Exec_def
        pg_insert_fits [of bk num, OF assms(1-4)] del: pg_insert.simps)
qed

lemma Get_after_insert:
  assumes "rstrip isbn \<notin> (\<lambda>r. rstrip (fst r)) ` set tbl"
      and "conn s = tbl @ [(isbn, title, author, price)]"
  shows "fst (BookModel_Get (books_table num) isbn s) =
           Inr \<lparr>Isbn = isbn, Title = title, Author = author, Price = price\<rparr>"
proof -
  have "filter (\<lambda>r. rstrip (fst r) = rstrip isbn) tbl = []"
    using assms(1) by (force simp: filter_empty_conv image_iff)
  then have "pg_select (conn s) [ArgString isbn] =
      Inr \<lparr>rows = [BookRow (isbn, title, author, price)], rows_Err = None, rows_Close = None\<rparr>"
    using assms(2) by simp
  then show ?thesis
    by (simp add: BookModel_Get_def DB_Prepare_def DB_Query_def Row_Scan_def books_table_def
        pg_Query_def)
qed

text \<open>
  Claim C4. For every valid book (an ISBN of 14 characters, a title and an author the
  columns hold, a price with two decimal places from 0 to 999.99) and every state of
  the books table of the schema: when \<^verbatim>\<open>Create\<close> returns no error, \<^verbatim>\<open>Get\<close> with
  the book's ISBN on the state that \<^verbatim>\<open>Create\<close> left returns a book equal to the one
  inserted, in all four fields. The price is stored as a decimal and read back; that it
  comes back as the same float32 is \<open>decimal52_valid\<close>.
\<close>

theorem create_get_roundtrip:
  assumes "valid_Book bk"
      and "fst (fst (BookModel_Create (books_table decimal52) bk s)) = None"
  shows "fst (BookModel_Get (books_table decimal52) (Isbn bk)
               (snd (BookModel_Create (books_table decimal52) bk s))) = Inr bk"
proof -
  from assms(1) have
    v: "char_length (Isbn bk) = 14" "char_length (Title bk) \<le> 255"
       "char_length (Author bk) \<le> 255" and
    p: "valid_price (Price bk)"
    by (simp_all add: valid_Book_def)
  from Create_fits_success [of bk decimal52 s, OF v decimal52_valid [OF p] assms(2)] have
    c: "conn (snd (BookModel_Create (books_table decimal52) bk s)) =
          conn s @ [(Isbn bk, Title bk, Author bk, Price bk)]" and
    n: "rstrip (Isbn bk) \<notin> (\<lambda>r. rstrip (fst r)) ` set (conn s)"
    by simp_all
  from Get_after_insert [OF n c] show ?thesis by simp
qed

theorem create_get_roundtrip_witness:
  "valid_Book Emma \<and>
   fst (fst (BookModel_Create (books_table decimal52) Emma one_row_DB)) = None \<and>
   fst (BookModel_Get (books_table decimal52) (Isbn Emma)
         (snd (BookModel_Create (books_table decimal52) Emma one_row_DB))) = Inr Emma"
proof -
  have "Price Emma = ParseFloat32 944 100"
    by code_simp
  then have "valid_price (Price Emma)"
    unfolding valid_price_def by (intro exI [of _ 944]) simp
  moreover have "char_length (Isbn Emma) = 14" "char_length (Title Emma) \<le> 255"
    "char_length (Author Emma) \<le> 255"
    by code_simp+
  ultimately have v: "valid_Book Emma"
    by (simp add: valid_Book_def)
  have c: "fst (fst (BookModel_Create (books_table decimal52) Emma one_row_DB)) = None"
    by code_simp
  from create_get_roundtrip [OF v c] v c show ?thesis by simp
qed

subsection \<open>Startup\<close>

text \<open>
  Once the Vault client exists, \<^verbatim>\<open>init\<close> is decided by the fetch and the merge; the
  result of the login only adds a line to the log. The login fails when the auth method
  cannot be set up, when the login returns an error, or when it returns no auth info.
  The process serves only when \<^verbatim>\<open>init\<close> has returned.
\<close>

lemma init_after_NewClient:
  assumes "NewClient vault = Inr client"
      and "loginVaultKubernetes V vault (AutomaticEnv V (viper_New V)) client = (lerr, client1)"
  shows "init V vault =
     (let conf = AutomaticEnv V (viper_New V);
          lg = (case lerr of Some err \<Rightarrow> [''vault login failed: %w '' @ Error_msg err] | None \<Rightarrow> [])
      in case KVv2_Get vault client1 (GetString V conf VAULT_KV_MOUNT)
                (GetString V conf VAULT_BOOKSTORE_ENV) of
           Inl err \<Rightarrow>
             \<lparr>outcome = Fatal, init_log = lg @ [''unable to read secret: '' @ Error_msg err]\<rparr>
         | Inr data \<Rightarrow>
             (case MergeConfigMap V conf data of
                (Some err, conf1) \<Rightarrow>
                  \<lparr>outcome = Fatal, init_log = lg @ [''unable to merge secret: '' @ Error_msg err]\<rparr>
              | (None, conf1) \<Rightarrow> \<lparr>outcome = Started conf1, init_log = lg\<rparr>))"
  using assms by (simp add: init_def Let_def)

lemma run_Fatal: "outcome (init V vault) = Fatal \<Longrightarrow> fst (run V vault sql_Open) = Exited"
  by (simp add: run_def)

lemma run_Started:
  "outcome (init V vault) = Started conf \<Longrightarrow>
   fst (run V vault sql_Open) = fst (main V sql_Open conf)"
  by (simp add: run_def split: prod.splits)

lemma login_fails_iff:
  "(fst (loginVaultKubernetes V vault conf client) \<noteq> None) =
     (NewKubernetesAuth vault (GetString V conf VAULT_ROLE) (GetString V conf KUBE_SVC_ACCT_TOKEN) \<noteq> None \<or>
      (\<exists>err. Login vault client (GetString V conf VAULT_ROLE) (GetString V conf KUBE_SVC_ACCT_TOKEN) = Inl err) \<or>
      (\<exists>c. Login vault client (GetString V conf VAULT_ROLE) (GetString V conf KUBE_SVC_ACCT_TOKEN) = Inr (False, c)))"
  by (auto simp: loginVaultKubernetes_def Let_def split: option.splits sum.splits prod.splits)

text \<open>
  Claim C7. With a Vault client at hand: when the Kubernetes login fails and the fetch
  and the merge succeed, \<^verbatim>\<open>init\<close> returns with the merged configuration, the
  failure is one line of the log, and the process goes on to \<^verbatim>\<open>main\<close>. When the
  fetch of the secret fails, and when the merge fails, whatever the login did,
  \<^verbatim>\<open>init\<close> ends in \<^verbatim>\<open>log.Fatalf\<close> and the process exits without reaching
  \<^verbatim>\<open>main\<close>, so before it listens for any request.
\<close>

theorem init_error_handling:
  assumes "NewClient vault = Inr client"
      and "conf = AutomaticEnv V (viper_New V)"
      and "loginVaultKubernetes V vault conf client = (lerr, client1)"
      and "secret = KVv2_Get vault client1 (GetString V conf VAULT_KV_MOUNT)
                      (GetString V conf VAULT_BOOKSTORE_ENV)"
  shows "(\<forall>err data conf1. lerr = Some err \<and> secret = Inr data \<and>
            MergeConfigMap V conf data = (None, conf1) \<longrightarrow>
            init V vault =
              \<lparr>outcome = Started conf1, init_log = [''vault login failed: %w '' @ Error_msg err]\<rparr> \<and>
            fst (run V vault sql_Open) = fst (main V sql_Open conf1)) \<and>
         (\<forall>err. secret = Inl err \<longrightarrow>
            outcome (init V vault) = Fatal \<and>
            last (init_log (init V vault)) = ''unable to read secret: '' @ Error_msg err \<and>
            fst (run V vault sql_Open) = Exited) \<and>
         (\<forall>err data conf1. secret = Inr data \<and> MergeConfigMap V conf data = (Some err, conf1) \<longrightarrow>
            outcome (init V vault) = Fatal \<and>
            last (init_log (init V vault)) = ''unable to merge secret: '' @ Error_msg err \<and>
            fst (run V vault sql_Open) = Exited)"
proof -
  note i = init_after_NewClient [OF assms(1) assms(3) [unfolded assms(2)], folded assms(2)]
  have a: "\<forall>err data conf1. lerr = Some err \<and> secret = Inr data \<and>
            MergeConfigMap V conf data = (None, conf1) \<longrightarrow>
            init V vault =
              \<lparr>outcome = Started conf1, init_log = [''vault login failed: %w '' @ Error_msg err]\<rparr> \<and>
            fst (run V vault sql_Open) = fst (main V sql_Open conf1)"
  proof (intro allI impI)
    fix err data conf1
    assume h: "lerr = Some err \<and> secret = Inr data \<and> MergeConfigMap V conf data = (None, conf1)"
    then have "init V vault =
        \<lparr>outcome = Started conf1, init_log = [''vault login failed: %w '' @ Error_msg err]\<rparr>"
      using i assms(2,4) by (simp add: Let_def)
    then show "init V vault =
        \<lparr>outcome = Started conf1, init_log = [''vault login failed: %w '' @ Error_msg err]\<rparr> \<and>
        fst (run V vault sql_Open) = fst (main V sql_Open conf1)"
      by (simp add: run_Started)
  qed
  have b: "\<forall>err. secret = Inl err \<longrightarrow>
            outcome (init V vault) = Fatal \<and>
            last (init_log (init V vault)) = ''unable to read secret: '' @ Error_msg err \<and>
            fst (run V vault sql_Open) = Exited"
  proof (intro allI impI)
    fix err
    assume h: "secret = Inl err"
    then have o: "outcome (init V vault) = Fatal" and
      l: "last (init_log (init V vault)) = ''unable to read secret: '' @ Error_msg err"
      using i assms(2,4) by (simp_all add: Let_def)
    then show "outcome (init V vault) = Fatal \<and>
            last (init_log (init V vault)) = ''unable to read secret: '' @ Error_msg err \<and>
            fst (run V vault sql_Open) = Exited"
      by (simp add: run_Fatal)
  qed
  have c: "\<forall>err data conf1. secret = Inr data \<and> MergeConfigMap V conf data = (Some err, conf1) \<longrightarrow>
            outcome (init V vault) = Fatal \<and>
            last (init_log (init V vault)) = ''unable to merge secret: '' @ Error_msg err \<and>
            fst (run V vault sql_Open) = Exited"
  proof (intro allI impI)
    fix err data conf1
    assume h: "secret = Inr data \<and> MergeConfigMap V conf data = (Some err, conf1)"
    then have o: "outcome (init V vault) = Fatal" and
      l: "last (init_log (init V vault)) = ''unable to merge secret: '' @ Error_msg err"
      using i assms(2,4) by (simp_all add: Let_def)
    then show "outcome (init V vault) = Fatal \<and>
            last (init_log (init V vault)) = ''unable to merge secret: '' @ Error_msg err \<and>
            fst (run V vault sql_Open) = Exited"
      by (simp add: run_Fatal)
  qed
  from a b c show ?thesis by (intro conjI)
qed

theorem init_error_handling_witness:
  "init (viper example_environ) vault_no_login =
     \<lparr>outcome = Started \<lparr>automaticEnvApplied = True, config = [(''db_user'', ''vaultuser'')]\<rparr>,
      init_log = [''vault login failed: %w unable to log in with Kubernetes auth: permission denied'']\<rparr> \<and>
   fst (run (viper example_environ) vault_no_login (\<lambda>driverName dataSourceName. None)) =
     Listening '':'' ''postgres://envuser:@:/?sslmode='' \<and>
   outcome (init (viper example_environ) vault_no_secret) = Fatal \<and>
   last (init_log (init (viper example_environ) vault_no_secret)) =
     ''unable to read secret: secret not found'' \<and>
   fst (run (viper example_environ) vault_no_secret (\<lambda>driverName dataSourceName. None)) = Exited \<and>
   outcome (init (viper_no_merge example_environ) vault_ok) = Fatal \<and>
   last (init_log (init (viper_no_merge example_environ) vault_ok)) =
     ''unable to merge secret: merge failed'' \<and>
   fst (run (viper_no_merge example_environ) vault_ok (\<lambda>driverName dataSourceName. None)) = Exited"
proof -
  let ?open = "\<lambda>driverName dataSourceName :: string. None :: error option"
  let ?c = "\<lparr>has_token = False\<rparr>"
  let ?V = "viper example_environ"
  let ?conf1 = "\<lparr>automaticEnvApplied = True, config = [(''db_user'', ''vaultuser'')]\<rparr>"
  have l1: "loginVaultKubernetes ?V vault_no_login (AutomaticEnv ?V (viper_New ?V)) ?c =
      (Some (Error ''unable to log in with Kubernetes auth: permission denied''), ?c)"
    by (simp add: loginVaultKubernetes_def vault_no_login_def vault_ok_def Let_def)
  have m1: "MergeConfigMap ?V (AutomaticEnv ?V (viper_New ?V)) [(''DB_USER'', ''vaultuser'')] =
      (None, ?conf1)"
    by code_simp
  have mn: "fst (main ?V ?open ?conf1) = Listening '':'' ''postgres://envuser:@:/?sslmode=''"
    by code_simp
  have a: "init ?V vault_no_login =
     \<lparr>outcome = Started ?conf1,
      init_log = [''vault login failed: %w unable to log in with Kubernetes auth: permission denied'']\<rparr> \<and>
     fst (run ?V vault_no_login ?open) = Listening '':'' ''postgres://envuser:@:/?sslmode=''"
    using init_error_handling [of vault_no_login ?c "AutomaticEnv ?V (viper_New ?V)" ?V _ _ _ ?open,
        OF _ refl l1 refl] m1 mn
    by (simp add: vault_no_login_def vault_ok_def)
  have l2: "loginVaultKubernetes ?V vault_no_secret (AutomaticEnv ?V (viper_New ?V)) ?c =
      (Some (Error ''unable to log in with Kubernetes auth: permission denied''), ?c)"
    by (simp add: loginVaultKubernetes_def vault_no_secret_def vault_no_login_def vault_ok_def Let_def)
  have b: "outcome (init ?V vault_no_secret) = Fatal \<and>
     last (init_log (init ?V vault_no_secret)) = ''unable to read secret: secret not found'' \<and>
     fst (run ?V vault_no_secret ?open) = Exited"
    using init_error_handling [of vault_no_secret ?c "AutomaticEnv ?V (viper_New ?V)" ?V _ _ _ ?open,
        OF _ refl l2 refl]
    by (simp add: vault_no_secret_def vault_no_login_def vault_ok_def)
  let ?W = "viper_no_merge example_environ"
  have l3: "loginVaultKubernetes ?W vault_ok (AutomaticEnv ?W (viper_New ?W)) ?c =
      (None, \<lparr>has_token = True\<rparr>)"
    by (simp add: loginVaultKubernetes_def vault_ok_def Let_def)
  have c: "outcome (init ?W vault_ok) = Fatal \<and>
     last (init_log (init ?W vault_ok)) = ''unable to merge secret: merge failed'' \<and>
     fst (run ?W vault_ok ?open) = Exited"
    using init_error_handling [of vault_ok ?c "AutomaticEnv ?W (viper_New ?W)" ?W _ _ _ ?open,
        OF _ refl l3 refl]
    by (simp add: vault_ok_def viper_no_merge_def)
  from a b c show ?thesis by simp
qed

subsection \<open>Configuration lookup after startup\<close>

text \<open>
  After \<^verbatim>\<open>init\<close> with Viper, the configuration has \<^verbatim>\<open>AutomaticEnv\<close> on and holds
  the entries of the fetched secret under their keys in lower case.
\<close>

lemma upper_lower_byte: "upper_byte (lower_byte c) = upper_byte c"
  by (auto simp: upper_byte_def lower_byte_def Let_def)

lemma ToUpper_ToLower: "ToUpper (ToLower key) = ToUpper key"
  by (simp add: ToUpper_def ToLower_def upper_lower_byte)

lemma init_viper_Started:
  assumes "outcome (init (viper environ) vault) = Started c"
  shows "\<exists>client data.
           KVv2_Get vault client (Viper_GetString environ (Viper_AutomaticEnv Viper_New) VAULT_KV_MOUNT)
             (Viper_GetString environ (Viper_AutomaticEnv Viper_New) VAULT_BOOKSTORE_ENV) = Inr data \<and>
           c = \<lparr>automaticEnvApplied = True, config = map (\<lambda>(k, val). (ToLower k, val)) data\<rparr>"
  using assms
  by (auto simp: init_def viper_def Let_def Viper_MergeConfigMap_def Viper_AutomaticEnv_def
      Viper_New_def split: sum.splits prod.splits option.splits)

text \<open>
  Claim C1, as amended. After startup, \<^verbatim>\<open>conf.GetString\<close> of a key returns the value
  of the key's environment variable whenever that variable is set and not empty,
  whatever the secret bundle holds for the key: entries of the environment override
  entries of the secret bundle. The bundle's value is returned for keys whose
  environment variable is unset or empty, and the empty string when the bundle has none.
\<close>

theorem GetString_after_init:
  assumes "outcome (init (viper environ) vault) = Started c"
      and "plain_key key"
  shows "(\<forall>val. environ (ToUpper key) = Some val \<and> val \<noteq> [] \<longrightarrow>
            GetString (viper environ) c key = val) \<and>
         (\<exists>client data.
            KVv2_Get vault client
              (GetString (viper environ) (AutomaticEnv (viper environ) (viper_New (viper environ)))
                 VAULT_KV_MOUNT)
              (GetString (viper environ) (AutomaticEnv (viper environ) (viper_New (viper environ)))
                 VAULT_BOOKSTORE_ENV) = Inr data \<and>
            GetString (viper environ) c key =
              (case getEnv environ (ToUpper key) of
                 Some val \<Rightarrow> val
               | None \<Rightarrow>
                   (case map_of (map (\<lambda>(k, val). (ToLower k, val)) data) (ToLower key) of
                      Some val \<Rightarrow> val
                    | None \<Rightarrow> [])))"
proof -
  from init_viper_Started [OF assms(1)] obtain client data where
    kv: "KVv2_Get vault client (Viper_GetString environ (Viper_AutomaticEnv Viper_New) VAULT_KV_MOUNT)
             (Viper_GetString environ (Viper_AutomaticEnv Viper_New) VAULT_BOOKSTORE_ENV) = Inr data" and
    c: "c = \<lparr>automaticEnvApplied = True, config = map (\<lambda>(k, val). (ToLower k, val)) data\<rparr>"
    by blast
  have g: "GetString (viper environ) c key =
      (case getEnv environ (ToUpper key) of
         Some val \<Rightarrow> val
       | None \<Rightarrow>
           (case map_of (map (\<lambda>(k, val). (ToLower k, val)) data) (ToLower key) of
              Some val \<Rightarrow> val
            | None \<Rightarrow> []))"
    by (simp add: viper_def Viper_GetString_def c Let_def ToUpper_ToLower split: option.splits)
  have e: "\<forall>val. environ (ToUpper key) = Some val \<and> val \<noteq> [] \<longrightarrow>
            GetString (viper environ) c key = val"
    by (simp add: g getEnv_def)
  have "\<exists>client data.
            KVv2_Get vault client
              (GetString (viper environ) (AutomaticEnv (viper environ) (viper_New (viper environ)))
                 VAULT_KV_MOUNT)
              (GetString (viper environ) (AutomaticEnv (viper environ) (viper_New (viper environ)))
                 VAULT_BOOKSTORE_ENV) = Inr data \<and>
            GetString (viper environ) c key =
              (case getEnv environ (ToUpper key) of
                 Some val \<Rightarrow> val
               | None \<Rightarrow>
                   (case map_of (map (\<lambda>(k, val). (ToLower k, val)) data) (ToLower key) of
                      Some val \<Rightarrow> val
                    | None \<Rightarrow> []))"
    using kv g by (auto simp: viper_def)
  with e show ?thesis by (intro conjI)
qed

theorem GetString_after_init_witness:
  "outcome (init (viper example_environ) vault_ok) =
     Started \<lparr>automaticEnvApplied = True, config = [(''db_user'', ''vaultuser'')]\<rparr> \<and>
   plain_key DB_USER \<and>
   example_environ (ToUpper DB_USER) = Some ''envuser'' \<and>
   GetString (viper example_environ)
     \<lparr>automaticEnvApplied = True, config = [(''db_user'', ''vaultuser'')]\<rparr> DB_USER = ''envuser''"
proof -
  have o: "outcome (init (viper example_environ) vault_ok) =
     Started \<lparr>automaticEnvApplied = True, config = [(''db_user'', ''vaultuser'')]\<rparr>"
    by code_simp
  have p: "plain_key DB_USER"
    by code_simp
  have e: "example_environ (ToUpper DB_USER) = Some ''envuser''"
    by code_simp
  from GetString_after_init [OF o p] e o p show ?thesis by simp
qed

text \<open>
  The claim as stated, that the secret bundle's value is returned for a key present in
  both, fails for \<^verbatim>\<open>DB_USER\<close> set in the environment and in the bundle: the value
  returned is the one of the environment.
\<close>

theorem GetString_environment_first:
  "outcome (init (viper example_environ) vault_ok) =
     Started \<lparr>automaticEnvApplied = True, config = [(''db_user'', ''vaultuser'')]\<rparr> \<and>
   example_environ DB_USER = Some ''envuser'' \<and>
   KVv2_Get vault_ok \<lparr>has_token = True\<rparr> [] [] = Inr [(DB_USER, ''vaultuser'')] \<and>
   GetString (viper example_environ)
     \<lparr>automaticEnvApplied = True, config = [(''db_user'', ''vaultuser'')]\<rparr> DB_USER = ''envuser''"
  by code_simp

end
